theory Spec2Isabelle
  imports Main "HOL-Library.Word"
begin

section \<open>Thrown values\<close>

text \<open>
  A JavaScript \<open>throw\<close> can raise any value. The two services distinguish three kinds:
  a plain \<open>Error\<close> (it has a message), the platform SDK's \<open>ApiResponseError\<close> (a subclass
  of \<open>Error\<close> with an HTTP status code, the optional \<open>rateLimit.reset\<close> header in seconds,
  the SDK's \<open>rateLimitError\<close> flag and a message), and a value that is not an \<open>Error\<close> at
  all; such a value may still have a \<open>message\<close> property (\<open>throw { message: 'x' }\<close>) or
  have none (\<open>throw null\<close>, \<open>throw 'x'\<close>).
  An \<open>async\<close> method that rejects is a result \<open>Inl thrown\<close>; one that resolves is \<open>Inr value\<close>.
\<close>

datatype thrown =
    Error string
  | ApiResponseError int "int option" bool string
  | NonError "string option"

fun instanceofError :: "thrown \<Rightarrow> bool" where
  "instanceofError (Error m) = True"
| "instanceofError (ApiResponseError c r f m) = True"
| "instanceofError (NonError p) = False"

text \<open>What \<open>error.message\<close> reads, if the value has such a property.\<close>

fun message :: "thrown \<Rightarrow> string option" where
  "message (Error m) = Some m"
| "message (ApiResponseError c r f m) = Some m"
| "message (NonError p) = p"

text \<open>\<open>error instanceof Error ? error.message : 'Unknown error'\<close>\<close>

definition messageOrUnknown :: "thrown \<Rightarrow> string" where
  "messageOrUnknown err =
     (if instanceofError err then (case message err of Some m \<Rightarrow> m | None \<Rightarrow> [])
      else ''Unknown error'')"

text \<open>\<open>error instanceof Error ? error : new Error('Unknown error')\<close>\<close>

definition errorOrUnknown :: "thrown \<Rightarrow> thrown" where
  "errorOrUnknown err = (if instanceofError err then err else Error ''Unknown error'')"


section \<open>AgentTwitterClientService (src/services/social/agentTwitterClient.ts)\<close>

subsection \<open>The scraper, the stream handler and the service's fields\<close>

text \<open>
  The scraper is the third-party client. Each of its methods is modelled by its outcome:
  \<open>None\<close> when the promise resolves, \<open>Some err\<close> when it rejects with \<open>err\<close>. The outcome may
  depend on everything the service has asked of the platform so far (the list of calls).
\<close>

datatype call =
    Login string string string
  | SendTweet string
  | LikeTweet string
  | Retweet string
  | GetProfile string

record profile =
  profile_userId :: "string option"
  profile_username :: "string option"
  profile_name :: "string option"
  profile_followersCount :: "int option"
  profile_friendsCount :: "int option"

record scraper =
  scraper_login :: "call list \<Rightarrow> string \<Rightarrow> string \<Rightarrow> string \<Rightarrow> thrown option"
  scraper_sendTweet :: "call list \<Rightarrow> string \<Rightarrow> thrown option"
  scraper_likeTweet :: "call list \<Rightarrow> string \<Rightarrow> thrown option"
  scraper_retweet :: "call list \<Rightarrow> string \<Rightarrow> thrown option"
  scraper_getProfile :: "call list \<Rightarrow> string \<Rightarrow> thrown + profile"

record tweetEvent =
  id_event :: string
  text_event :: string
  created_at :: int

text \<open>
  \<open>TwitterStreamHandler\<close> is not part of the sources; it is taken as a parameter: what
  \<open>handleTweetEvent\<close> does with an event is its outcome (resolve or reject).
\<close>

record streamHandler =
  handleTweetEvent :: "tweetEvent \<Rightarrow> thrown option"

text \<open>The two local variables that the interval callback of \<open>startStream\<close> closes over.\<close>

record pollVars =
  lastChecked :: int
  isMonitoringVar :: bool

text \<open>
  The fields of the class. \<open>calls\<close> is a ghost field: the platform calls made so far, in
  order. \<open>pollClosure\<close> is a ghost field too: the variables of the callback installed last.
\<close>

record agentService =
  username :: string
  password :: string
  email :: string
  scraper :: "scraper option"
  isInitialized :: bool
  monitoringInterval :: "nat option"
  isMonitoring :: bool
  streamHandler :: "streamHandler option"
  calls :: "call list"
  pollClosure :: "pollVars option"

text \<open>The constructor only stores its arguments; every other field has its initialiser.\<close>

definition newAgentService :: "string \<Rightarrow> string \<Rightarrow> string \<Rightarrow> agentService" where
  "newAgentService u p e =
     \<lparr> username = u, password = p, email = e, scraper = None, isInitialized = False,
       monitoringInterval = None, isMonitoring = False, streamHandler = None,
       calls = [], pollClosure = None \<rparr>"

record opResult =
  success :: bool
  error :: "thrown option"

subsection \<open>ensureInitialized and the four posting operations\<close>

definition notInitializedError :: thrown where
  "notInitializedError = Error ''AgentTwitterClientService not initialized. Call initialize() first.''"

definition ensureInitialized :: "agentService \<Rightarrow> thrown + unit" where
  "ensureInitialized s =
     (if \<not> isInitialized s \<or> scraper s = None then Inl notInitializedError else Inr ())"

text \<open>
  The body of a \<open>try\<close> block is a function that returns \<open>Inl\<close> where the block throws; the
  \<open>catch\<close> clause of the four operations is the same: it returns the failure result.
\<close>

definition catchResult :: "(thrown + opResult) \<times> agentService \<Rightarrow> (thrown + opResult) \<times> agentService" where
  "catchResult r =
     (case r of
        (Inl err, s) \<Rightarrow> (Inr \<lparr> success = False, error = Some (errorOrUnknown err) \<rparr>, s)
      | (Inr v, s) \<Rightarrow> (Inr v, s))"

definition scraperNotInitialized :: opResult where
  "scraperNotInitialized = \<lparr> success = False, error = Some (Error ''Scraper not initialized'') \<rparr>"

definition succeeded :: opResult where
  "succeeded = \<lparr> success = True, error = None \<rparr>"

definition sendTweet_try :: "string \<Rightarrow> agentService \<Rightarrow> (thrown + opResult) \<times> agentService" where
  "sendTweet_try content s =
     (case ensureInitialized s of
        Inl err \<Rightarrow> (Inl err, s)
      | Inr _ \<Rightarrow>
         (case scraper s of
            Some sc \<Rightarrow>
              (case scraper_sendTweet sc (calls s) content of
                 Some err \<Rightarrow> (Inl err, s\<lparr>calls := calls s @ [SendTweet content]\<rparr>)
               | None \<Rightarrow> (Inr succeeded, s\<lparr>calls := calls s @ [SendTweet content]\<rparr>))
          | None \<Rightarrow> (Inr scraperNotInitialized, s)))"

definition sendTweet :: "string \<Rightarrow> agentService \<Rightarrow> (thrown + opResult) \<times> agentService" where
  "sendTweet content s = catchResult (sendTweet_try content s)"

definition postTweet_agent :: "string \<Rightarrow> agentService \<Rightarrow> (thrown + opResult) \<times> agentService" where
  "postTweet_agent content s = sendTweet content s"

text \<open>\<open>username.startsWith('@') ? `${username} ${content}` : `@${username} ${content}`\<close>\<close>

definition startsWithAt :: "string \<Rightarrow> bool" where
  "startsWithAt u = (case u of [] \<Rightarrow> False | c # _ \<Rightarrow> c = CHR ''@'')"

definition replyContent :: "string \<Rightarrow> string \<Rightarrow> string" where
  "replyContent u content =
     (if startsWithAt u then u @ '' '' @ content else ''@'' @ u @ '' '' @ content)"

definition replyToTweet_try ::
  "string \<Rightarrow> string \<Rightarrow> string \<Rightarrow> agentService \<Rightarrow> (thrown + opResult) \<times> agentService" where
  "replyToTweet_try tweetId content u s =
     (case ensureInitialized s of
        Inl err \<Rightarrow> (Inl err, s)
      | Inr _ \<Rightarrow>
         (case scraper s of
            Some sc \<Rightarrow>
              (case scraper_sendTweet sc (calls s) (replyContent u content) of
                 Some err \<Rightarrow> (Inl err, s\<lparr>calls := calls s @ [SendTweet (replyContent u content)]\<rparr>)
               | None \<Rightarrow> (Inr succeeded, s\<lparr>calls := calls s @ [SendTweet (replyContent u content)]\<rparr>))
          | None \<Rightarrow> (Inr scraperNotInitialized, s)))"

definition replyToTweet ::
  "string \<Rightarrow> string \<Rightarrow> string \<Rightarrow> agentService \<Rightarrow> (thrown + opResult) \<times> agentService" where
  "replyToTweet tweetId content u s = catchResult (replyToTweet_try tweetId content u s)"

definition likeTweet_try :: "string \<Rightarrow> agentService \<Rightarrow> (thrown + opResult) \<times> agentService" where
  "likeTweet_try tweetId s =
     (case ensureInitialized s of
        Inl err \<Rightarrow> (Inl err, s)
      | Inr _ \<Rightarrow>
         (case scraper s of
            Some sc \<Rightarrow>
              (case scraper_likeTweet sc (calls s) tweetId of
                 Some err \<Rightarrow> (Inl err, s\<lparr>calls := calls s @ [LikeTweet tweetId]\<rparr>)
               | None \<Rightarrow> (Inr succeeded, s\<lparr>calls := calls s @ [LikeTweet tweetId]\<rparr>))
          | None \<Rightarrow> (Inr scraperNotInitialized, s)))"

definition likeTweet :: "string \<Rightarrow> agentService \<Rightarrow> (thrown + opResult) \<times> agentService" where
  "likeTweet tweetId s = catchResult (likeTweet_try tweetId s)"

definition retweet_try :: "string \<Rightarrow> agentService \<Rightarrow> (thrown + opResult) \<times> agentService" where
  "retweet_try tweetId s =
     (case ensureInitialized s of
        Inl err \<Rightarrow> (Inl err, s)
      | Inr _ \<Rightarrow>
         (case scraper s of
            Some sc \<Rightarrow>
              (case scraper_retweet sc (calls s) tweetId of
                 Some err \<Rightarrow> (Inl err, s\<lparr>calls := calls s @ [Retweet tweetId]\<rparr>)
               | None \<Rightarrow> (Inr succeeded, s\<lparr>calls := calls s @ [Retweet tweetId]\<rparr>))
          | None \<Rightarrow> (Inr scraperNotInitialized, s)))"

definition retweet :: "string \<Rightarrow> agentService \<Rightarrow> (thrown + opResult) \<times> agentService" where
  "retweet tweetId s = catchResult (retweet_try tweetId s)"

subsection \<open>getProfile\<close>

record profileResult =
  id_profile :: string
  username_profile :: string
  name_profile :: "string option"
  followers_count :: "int option"
  following_count :: "int option"

text \<open>\<open>x || ''\<close> on an optional string: the empty string when \<open>x\<close> is missing or empty.\<close>

definition orEmpty :: "string option \<Rightarrow> string" where
  "orEmpty x = (case x of None \<Rightarrow> [] | Some v \<Rightarrow> v)"

definition toProfileResult :: "profile \<Rightarrow> profileResult" where
  "toProfileResult p =
     \<lparr> id_profile = orEmpty (profile_userId p),
       username_profile = orEmpty (profile_username p),
       name_profile = profile_name p,
       followers_count = profile_followersCount p,
       following_count = profile_friendsCount p \<rparr>"

definition getProfile_try :: "string \<Rightarrow> agentService \<Rightarrow> (thrown + profileResult) \<times> agentService" where
  "getProfile_try u s =
     (case scraper s of
        Some sc \<Rightarrow>
          (case scraper_getProfile sc (calls s) u of
             Inl err \<Rightarrow> (Inl err, s\<lparr>calls := calls s @ [GetProfile u]\<rparr>)
           | Inr p \<Rightarrow> (Inr (toProfileResult p), s\<lparr>calls := calls s @ [GetProfile u]\<rparr>))
      | None \<Rightarrow> (Inl (Error ''Scraper not initialized''), s))"

text \<open>
  \<open>ensureInitialized()\<close> is called before the \<open>try\<close>; the \<open>catch\<close> clause throws a new
  \<open>Error\<close> instead of returning a result.
\<close>

definition getProfile :: "string \<Rightarrow> agentService \<Rightarrow> (thrown + profileResult) \<times> agentService" where
  "getProfile u s =
     (case ensureInitialized s of
        Inl err \<Rightarrow> (Inl err, s)
      | Inr _ \<Rightarrow>
         (case getProfile_try u s of
            (Inl err, s') \<Rightarrow> (Inl (Error (''Failed to get profile: '' @ messageOrUnknown err)), s')
          | (Inr r, s') \<Rightarrow> (Inr r, s')))"

subsection \<open>initialize and startStream\<close>

text \<open>
  What \<open>initialize\<close> takes from its environment: the object \<open>new Scraper()\<close> gives, the
  outcome of \<open>new TwitterStreamHandler(this, aiService)\<close>, what \<open>Date.now()\<close> reads in
  \<open>startStream\<close>, and the handle that \<open>setInterval\<close> returns.
\<close>

record agentEnv =
  env_newScraper :: scraper
  env_newStreamHandler :: "thrown + streamHandler"
  env_now :: int
  env_timer :: nat

definition startStream_agent :: "int \<Rightarrow> nat \<Rightarrow> agentService \<Rightarrow> (thrown + unit) \<times> agentService" where
  "startStream_agent now handle s =
     (if scraper s = None \<or> streamHandler s = None
      then (Inl (Error ''Cannot start stream: Twitter client or stream handler not initialized''), s)
      else (Inr (), s\<lparr> monitoringInterval := Some handle, isMonitoring := True,
                       pollClosure := Some \<lparr> lastChecked = now, isMonitoringVar = True \<rparr> \<rparr>))"

definition initialize_try :: "agentEnv \<Rightarrow> agentService \<Rightarrow> (thrown + unit) \<times> agentService" where
  "initialize_try env s =
     (let sc = env_newScraper env;
          s1 = s\<lparr>scraper := Some sc\<rparr>;
          s2 = s1\<lparr>calls := calls s1 @ [Login (username s) (password s) (email s)]\<rparr>
      in case scraper_login sc (calls s1) (username s) (password s) (email s) of
           Some err \<Rightarrow> (Inl err, s2)
         | None \<Rightarrow>
            (case env_newStreamHandler env of
               Inl err \<Rightarrow> (Inl err, s2)
             | Inr h \<Rightarrow>
                (case startStream_agent (env_now env) (env_timer env) (s2\<lparr>streamHandler := Some h\<rparr>) of
                   (Inl err, s3) \<Rightarrow> (Inl err, s3)
                 | (Inr _, s3) \<Rightarrow> (Inr (), s3\<lparr>isInitialized := True\<rparr>))))"

definition initialize_agent :: "agentEnv \<Rightarrow> agentService \<Rightarrow> (thrown + unit) \<times> agentService" where
  "initialize_agent env s =
     (case initialize_try env s of
        (Inl err, s') \<Rightarrow>
          (Inl (Error (''Twitter client initialization failed: '' @ messageOrUnknown err)), s')
      | (Inr v, s') \<Rightarrow> (Inr v, s'))"

subsection \<open>One tick of the polling callback\<close>

text \<open>
  \<open>searchTweets('', 20, SearchMode.Latest)\<close> is an asynchronous generator. What it yields
  in one tick is a list of tweets, each paired with what \<open>Date.now()\<close> reads when the loop
  body runs for it (\<open>tweetTimestamp\<close>, the observed timestamp: no field of the tweet itself
  is compared with \<open>lastChecked\<close>), and then either completion or an error.
  \<open>created_at\<close> is the ISO rendering of \<open>tweetTimestamp\<close>; the model keeps the number.
  Every field of a yielded tweet is optional in the scraper's type. \<open>tweet_timestamp\<close> is
  the tweet's own creation time in milliseconds; the callback never reads it.
\<close>

record fetchedTweet =
  tweet_id :: "string option"
  tweet_text :: "string option"
  tweet_timestamp :: "int option"

text \<open>
  The value that \<open>tweet.id.toString()\<close> throws when the tweet has no \<open>id\<close>: a \<open>TypeError\<close>,
  which is an \<open>Error\<close>, with the message that the runtime (V8) gives it.
\<close>

definition missingIdError :: thrown where
  "missingIdError = Error ''Cannot read properties of undefined (reading 'toString')''"

text \<open>The object literal \<open>tweetEvent\<close>; building it throws when the tweet has no \<open>id\<close>.\<close>

definition toTweetEvent :: "fetchedTweet \<Rightarrow> int \<Rightarrow> thrown + tweetEvent" where
  "toTweetEvent tw tweetTimestamp =
     (case tweet_id tw of
        None \<Rightarrow> Inl missingIdError
      | Some i \<Rightarrow>
          Inr \<lparr> id_event = i, text_event = orEmpty (tweet_text tw), created_at = tweetTimestamp \<rparr>)"

text \<open>
  The \<open>for await\<close> loop. The result is the error that ended the loop, if any, and the events
  handed to \<open>handleTweetEvent\<close>, in order. \<open>this.streamHandler?.handleTweetEvent\<close> calls
  nothing when there is no handler.
\<close>

fun processTweets ::
  "streamHandler option \<Rightarrow> pollVars \<Rightarrow> (fetchedTweet \<times> int) list \<Rightarrow> thrown option \<times> tweetEvent list" where
  "processTweets h v [] = (None, [])"
| "processTweets h v ((tw, tweetTimestamp) # rest) =
     (if \<not> isMonitoringVar v then (None, [])
      else if tweetTimestamp > lastChecked v then
        (case toTweetEvent tw tweetTimestamp of
           Inl err \<Rightarrow> (Some err, [])
         | Inr tweetEvent \<Rightarrow>
            (case h of
               None \<Rightarrow> processTweets h v rest
             | Some handler \<Rightarrow>
                (case handleTweetEvent handler tweetEvent of
                   Some err \<Rightarrow> (Some err, [tweetEvent])
                 | None \<Rightarrow>
                    (case processTweets h v rest of
                       (r, evs) \<Rightarrow> (r, tweetEvent # evs)))))
      else processTweets h v rest)"

text \<open>
  The callback: \<open>yielded\<close> and \<open>generatorError\<close> are what the generator does in this tick,
  \<open>finishedAt\<close> is what \<open>Date.now()\<close> reads after the loop. An error anywhere in the \<open>try\<close>
  block is logged and leaves \<open>lastChecked\<close> as it was.
\<close>

definition pollTick ::
  "agentService \<Rightarrow> (fetchedTweet \<times> int) list \<Rightarrow> thrown option \<Rightarrow> int \<Rightarrow> pollVars
     \<Rightarrow> pollVars \<times> tweetEvent list" where
  "pollTick s yielded generatorError finishedAt v =
     (if \<not> isMonitoringVar v then (v, [])
      else case scraper s of
             None \<Rightarrow> (v, [])
           | Some sc \<Rightarrow>
              (case processTweets (streamHandler s) v yielded of
                 (Some err, evs) \<Rightarrow> (v, evs)
               | (None, evs) \<Rightarrow>
                  (case generatorError of
                     Some err \<Rightarrow> (v, evs)
                   | None \<Rightarrow> (v\<lparr>lastChecked := finishedAt\<rparr>, evs))))"


section \<open>TwitterService (src/unnamed/part_000)\<close>

subsection \<open>Strings, numbers in template literals\<close>

text \<open>
  Tweet content is a JavaScript string: a sequence of UTF-16 code units, and \<open>.length\<close>
  counts code units. A regular expression with the \<open>u\<close> flag reads the string by code
  points: a high surrogate followed by a low surrogate is one code point.
\<close>

type_synonym jsString = "16 word list"

definition isHighSurrogate :: "16 word \<Rightarrow> bool" where
  "isHighSurrogate u = (0xD800 \<le> u \<and> u \<le> 0xDBFF)"

definition isLowSurrogate :: "16 word \<Rightarrow> bool" where
  "isLowSurrogate u = (0xDC00 \<le> u \<and> u \<le> 0xDFFF)"

fun codePoints :: "jsString \<Rightarrow> nat list" where
  "codePoints [] = []"
| "codePoints [u] = [unat u]"
| "codePoints (u # v # rest) =
     (if isHighSurrogate u \<and> isLowSurrogate v
      then (0x10000 + (unat u - 0xD800) * 0x400 + (unat v - 0xDC00)) # codePoints rest
      else unat u # codePoints (v # rest))"

text \<open>Decimal rendering of a number inside a template literal.\<close>

fun showNat :: "nat \<Rightarrow> string" where
  "showNat n =
     (if n < 10 then [''0123456789'' ! n]
      else showNat (n div 10) @ [''0123456789'' ! (n mod 10)])"

declare showNat.simps [simp del]

definition showInt :: "int \<Rightarrow> string" where
  "showInt i = (if i < 0 then ''-'' @ showNat (nat (- i)) else showNat (nat i))"

subsection \<open>Configuration\<close>

text \<open>
  The part of \<open>this.config\<close> that the modelled methods read. The constructor fills the
  defaults in: \<open>mockMode\<close> false, \<open>maxRetries\<close> 3, \<open>retryDelay\<close> 5000, \<open>maxEmojis\<close> 0,
  \<open>maxHashtags\<close> 0, \<open>minInterval\<close> 300000. \<open>maxRetries\<close> is a count of attempts.
\<close>

record contentRules =
  maxEmojis :: int
  maxHashtags :: int
  minInterval :: int

record twitterConfig =
  mockMode :: bool
  maxRetries :: nat
  retryDelay :: int
  contentRules :: contentRules

definition defaultConfig :: twitterConfig where
  "defaultConfig =
     \<lparr> mockMode = False, maxRetries = 3, retryDelay = 5000,
       contentRules = \<lparr> maxEmojis = 0, maxHashtags = 0, minInterval = 300000 \<rparr> \<rparr>"

subsection \<open>validateTweetContent\<close>

text \<open>\<open>(content.match(/[\u{1F600}-\u{1F64F}]/gu) || []).length\<close>\<close>

definition emojiCount :: "jsString \<Rightarrow> int" where
  "emojiCount content = int (length (filter (\<lambda>c. 0x1F600 \<le> c \<and> c \<le> 0x1F64F) (codePoints content)))"

text \<open>\<open>(content.match(/#/g) || []).length\<close>\<close>

definition hashtagCount :: "jsString \<Rightarrow> int" where
  "hashtagCount content = int (length (filter (\<lambda>u. u = 0x23) content))"

definition validateTweetContent :: "twitterConfig \<Rightarrow> jsString \<Rightarrow> thrown + unit" where
  "validateTweetContent cfg content =
     (if emojiCount content > maxEmojis (contentRules cfg)
      then Inl (Error (''Tweet contains too many emojis. Maximum allowed is ''
                        @ showInt (maxEmojis (contentRules cfg)) @ ''.''))
      else if hashtagCount content > maxHashtags (contentRules cfg)
      then Inl (Error (''Tweet contains too many hashtags. Maximum allowed is ''
                        @ showInt (maxHashtags (contentRules cfg)) @ ''.''))
      else Inr ())"

subsection \<open>The platform, the clock and the trace\<close>

record payload =
  text_payload :: jsString
  media_ids :: "string list option"
  in_reply_to_tweet_id :: "string option"

record options =
  mediaUrls :: "string list option"
  replyToTweetId :: "string option"

definition noOptions :: options where
  "noOptions = \<lparr> mediaUrls = None, replyToTweetId = None \<rparr>"

record tweetData =
  id_tweet :: string
  text_tweet :: jsString

text \<open>
  What the service does that can be observed from outside, in order: the start of a try of
  \<open>postTweetWithRetry\<close> (its number as the log line prints it, and the clock then), a
  failure caught by a retry loop, a call of \<open>this.delay(ms)\<close>, and the calls of the SDK.
\<close>

datatype event =
    Attempt nat int
  | Failed thrown
  | Sleep int
  | Submit payload
  | Upload "string list"
  | Me

record world =
  clock :: int
  ticks :: nat
  trace :: "event list"

text \<open>
  The SDK clients and the timer. The \<open>n\<close>-th interaction with the outside (a call of the
  SDK or a timer) takes \<open>elapsed n\<close> milliseconds beyond what was asked for; a call's
  outcome may depend on \<open>n\<close>, on the clock when the answer arrives and on the arguments.
  \<open>v1_uploadMedia\<close> is the outcome of \<open>Promise.all\<close> over the uploads of \<open>uploadMedia\<close>,
  taken as one interaction.
\<close>

record platform =
  v2_tweet :: "nat \<Rightarrow> int \<Rightarrow> payload \<Rightarrow> thrown + tweetData"
  v1_uploadMedia :: "nat \<Rightarrow> int \<Rightarrow> string list \<Rightarrow> thrown + string list"
  v2_me :: "nat \<Rightarrow> int \<Rightarrow> thrown + string \<times> string"
  elapsed :: "nat \<Rightarrow> nat"

definition advance :: "platform \<Rightarrow> event \<Rightarrow> int \<Rightarrow> world \<Rightarrow> world" where
  "advance env ev ms w =
     \<lparr> clock = clock w + ms + int (elapsed env (ticks w)), ticks = Suc (ticks w),
       trace = trace w @ [ev] \<rparr>"

text \<open>
  \<open>delay(ms)\<close> is \<open>setTimeout(resolve, ms)\<close>. The runtime sets a timeout of more than
  2147483647 ms or of less than 1 ms to 1 ms; a timer fires no earlier than the timeout
  it was set to.
\<close>

definition setTimeoutMs :: "int \<Rightarrow> int" where
  "setTimeoutMs ms = (if ms > 2147483647 \<or> ms < 1 then 1 else ms)"

definition delay :: "platform \<Rightarrow> int \<Rightarrow> world \<Rightarrow> world" where
  "delay env ms w = advance env (Sleep ms) (setTimeoutMs ms) w"

definition logEvent :: "event \<Rightarrow> world \<Rightarrow> world" where
  "logEvent ev w = w\<lparr>trace := trace w @ [ev]\<rparr>"

subsection \<open>uploadMedia and postTweet\<close>

text \<open>
  Both \<open>catch\<close> clauses of \<open>uploadMedia\<close> log and throw the error again. With no URL
  there is nothing to upload: \<open>Promise.all([])\<close> resolves to the empty list and the SDK is
  not called.
\<close>

definition uploadMedia :: "platform \<Rightarrow> string list \<Rightarrow> world \<Rightarrow> (thrown + string list) \<times> world" where
  "uploadMedia env urls w =
     (if take 4 urls = [] then (Inr [], w)
      else
        (let w1 = advance env (Upload (take 4 urls)) 0 w
         in (v1_uploadMedia env (ticks w) (clock w1) (take 4 urls), w1)))"

definition mediaIdsFor :: "platform \<Rightarrow> options \<Rightarrow> world \<Rightarrow> (thrown + string list) \<times> world" where
  "mediaIdsFor env opts w =
     (case mediaUrls opts of Some urls \<Rightarrow> uploadMedia env urls w | None \<Rightarrow> (Inr [], w))"

definition submitTweet :: "platform \<Rightarrow> payload \<Rightarrow> world \<Rightarrow> (thrown + tweetData) \<times> world" where
  "submitTweet env p w =
     (let w1 = advance env (Submit p) 0 w in (v2_tweet env (ticks w) (clock w1) p, w1))"

text \<open>
  The \<open>catch\<close> clause of \<open>postTweet\<close> logs and throws the error again, so a failure of the
  body is the failure of the method. The payload carries no reply target.
\<close>

definition postTweet :: "platform \<Rightarrow> jsString \<Rightarrow> options \<Rightarrow> world \<Rightarrow> (thrown + unit) \<times> world" where
  "postTweet env content opts w =
     (if content = [] then (Inl (Error ''Tweet content cannot be empty''), w)
      else if length content > 280 then (Inl (Error ''Tweet exceeds 280 characters''), w)
      else
        (case mediaIdsFor env opts w of
           (Inl err, w1) \<Rightarrow> (Inl err, w1)
         | (Inr mediaIds, w1) \<Rightarrow>
            (case submitTweet env
                    \<lparr> text_payload = content,
                      media_ids = (if mediaIds = [] then None else Some mediaIds),
                      in_reply_to_tweet_id = None \<rparr> w1 of
               (Inl err, w2) \<Rightarrow> (Inl err, w2)
             | (Inr result, w2) \<Rightarrow> (Inr (), w2))))"

subsection \<open>postTweetWithRetry\<close>

definition getRateLimitReset :: "thrown \<Rightarrow> int option" where
  "getRateLimitReset err =
     (case err of
        ApiResponseError code resetHeader flag m \<Rightarrow>
          (case resetHeader of
             Some r \<Rightarrow> (if r \<noteq> 0 then Some (r * 1000) else None)
           | None \<Rightarrow> None)
      | _ \<Rightarrow> None)"

text \<open>
  The nested conditions of the \<open>catch\<close> clause (an \<open>ApiResponseError\<close>, code 429, a reset
  time that is not null or 0, a positive wait) with \<open>now\<close> what \<open>Date.now()\<close> reads:
  \<open>Some waitTime\<close> where the clause sleeps \<open>waitTime\<close> and continues, \<open>None\<close> where it
  falls through.
\<close>

definition rateLimitWaitTime :: "thrown \<Rightarrow> int \<Rightarrow> int option" where
  "rateLimitWaitTime err now =
     (case err of
        ApiResponseError code resetHeader flag m \<Rightarrow>
          (if code = 429 then
             (case getRateLimitReset err of
                Some resetTime \<Rightarrow>
                  (if resetTime \<noteq> 0 \<and> resetTime - now > 0 then Some (resetTime - now) else None)
              | None \<Rightarrow> None)
           else None)
      | _ \<Rightarrow> None)"

text \<open>\<open>lastError?.message || 'Unknown error'\<close>\<close>

definition lastErrorMessage :: "thrown option \<Rightarrow> string" where
  "lastErrorMessage lastError =
     (case lastError of
        None \<Rightarrow> ''Unknown error''
      | Some err \<Rightarrow>
         (case message err of
            None \<Rightarrow> ''Unknown error''
          | Some m \<Rightarrow> (if m = [] then ''Unknown error'' else m)))"

definition retriesExhausted :: "twitterConfig \<Rightarrow> thrown option \<Rightarrow> thrown" where
  "retriesExhausted cfg lastError =
     Error (''Failed to post tweet after '' @ showNat (maxRetries cfg) @ '' attempts: ''
            @ lastErrorMessage lastError)"

function postTweetWithRetry_loop ::
  "platform \<Rightarrow> twitterConfig \<Rightarrow> jsString \<Rightarrow> nat \<Rightarrow> thrown option \<Rightarrow> world \<Rightarrow> (thrown + unit) \<times> world" where
  "postTweetWithRetry_loop env cfg content attempt lastError w =
     (if attempt < maxRetries cfg then
        (case postTweet env content noOptions (logEvent (Attempt (attempt + 1) (clock w)) w) of
           (Inr u, w1) \<Rightarrow> (Inr (), w1)
         | (Inl err, w1) \<Rightarrow>
            (case rateLimitWaitTime err (clock w1) of
               Some waitTime \<Rightarrow>
                 postTweetWithRetry_loop env cfg content (attempt + 1) (Some err)
                   (delay env waitTime (logEvent (Failed err) w1))
             | None \<Rightarrow>
                 (if attempt + 1 < maxRetries cfg
                  then postTweetWithRetry_loop env cfg content (attempt + 1) (Some err)
                         (delay env (retryDelay cfg * 2 ^ (attempt + 1)) (logEvent (Failed err) w1))
                  else postTweetWithRetry_loop env cfg content (attempt + 1) (Some err)
                         (logEvent (Failed err) w1))))
      else (Inl (retriesExhausted cfg lastError), w))"
  by pat_completeness auto
termination
  by (relation "measure (\<lambda>(env, cfg, content, attempt, lastError, w). maxRetries cfg - attempt)") auto

declare postTweetWithRetry_loop.simps [simp del]

definition postTweetWithRetry :: "platform \<Rightarrow> twitterConfig \<Rightarrow> jsString \<Rightarrow> world \<Rightarrow> (thrown + unit) \<times> world" where
  "postTweetWithRetry env cfg content w = postTweetWithRetry_loop env cfg content 0 None w"

text \<open>
  A second definition, not taken from the source but from the words of the specification
  (an operation that always fails is tried exactly as often as the ceiling allows, with a
  sleep of \<open>baseDelay * 2 ^ attempt\<close> before each retry), to compare the loop with:
  \<open>n\<close> tries in a row, each of them one call of \<open>postTweet\<close>. The result is \<open>None\<close> if one of
  the calls succeeds; otherwise it is the errors that the calls of \<open>postTweet\<close> returned,
  in order, and the world after the last of them. \<open>attempt\<close> is the number of tries made
  before.
\<close>

fun spec_failedTries ::
  "platform \<Rightarrow> twitterConfig \<Rightarrow> jsString \<Rightarrow> nat \<Rightarrow> nat \<Rightarrow> world \<Rightarrow> (thrown list \<times> world) option" where
  "spec_failedTries env cfg content attempt 0 w = Some ([], w)"
| "spec_failedTries env cfg content attempt (Suc n) w =
     (case postTweet env content noOptions (logEvent (Attempt (attempt + 1) (clock w)) w) of
        (Inr u, w1) \<Rightarrow> None
      | (Inl err, w1) \<Rightarrow>
         (case spec_failedTries env cfg content (attempt + 1) n
                 (if n = 0 then logEvent (Failed err) w1
                  else delay env (retryDelay cfg * 2 ^ (attempt + 1)) (logEvent (Failed err) w1)) of
            None \<Rightarrow> None
          | Some (errs, w') \<Rightarrow> Some (err # errs, w')))"

subsection \<open>tweet\<close>

text \<open>\<open>attempt < maxRetries && error instanceof ApiResponseError && (error.rateLimitError || error.code === 429)\<close>\<close>

definition shouldRetry :: "twitterConfig \<Rightarrow> thrown \<Rightarrow> nat \<Rightarrow> bool" where
  "shouldRetry cfg err attempt =
     (attempt < maxRetries cfg \<and>
      (case err of ApiResponseError code resetHeader flag m \<Rightarrow> flag \<or> code = 429 | _ \<Rightarrow> False))"

text \<open>An empty \<open>replyToTweetId\<close> is falsy and adds no \<open>reply\<close> to the payload.\<close>

definition tweetPayload :: "jsString \<Rightarrow> string list \<Rightarrow> options \<Rightarrow> payload" where
  "tweetPayload content mediaIds opts =
     \<lparr> text_payload = content,
       media_ids = (if mediaIds = [] then None else Some mediaIds),
       in_reply_to_tweet_id =
         (case replyToTweetId opts of Some r \<Rightarrow> (if r = [] then None else Some r) | None \<Rightarrow> None) \<rparr>"

definition tweet_try :: "platform \<Rightarrow> jsString \<Rightarrow> options \<Rightarrow> world \<Rightarrow> (thrown + tweetData) \<times> world" where
  "tweet_try env content opts w =
     (case mediaIdsFor env opts w of
        (Inl err, w1) \<Rightarrow> (Inl err, w1)
      | (Inr mediaIds, w1) \<Rightarrow> submitTweet env (tweetPayload content mediaIds opts) w1)"

function tweet_loop ::
  "platform \<Rightarrow> twitterConfig \<Rightarrow> jsString \<Rightarrow> options \<Rightarrow> nat \<Rightarrow> world \<Rightarrow> (thrown + tweetData) \<times> world" where
  "tweet_loop env cfg content opts attempt w =
     (if attempt < maxRetries cfg then
        (case tweet_try env content opts w of
           (Inr posted, w1) \<Rightarrow> (Inr posted, w1)
         | (Inl err, w1) \<Rightarrow>
            (if shouldRetry cfg err (attempt + 1)
             then tweet_loop env cfg content opts (attempt + 1)
                    (delay env (retryDelay cfg * int (attempt + 1)) (logEvent (Failed err) w1))
             else (Inl err, logEvent (Failed err) w1)))
      else (Inl (Error (''Failed to post tweet after '' @ showNat (maxRetries cfg) @ '' attempts'')), w))"
  by pat_completeness auto
termination
  by (relation "measure (\<lambda>(env, cfg, content, opts, attempt, w). maxRetries cfg - attempt)") auto

declare tweet_loop.simps [simp del]

definition tweet :: "platform \<Rightarrow> twitterConfig \<Rightarrow> jsString \<Rightarrow> options \<Rightarrow> world \<Rightarrow> (thrown + tweetData) \<times> world" where
  "tweet env cfg content opts w =
     (if mockMode cfg then (Inr \<lparr> id_tweet = ''mock_tweet_id'', text_tweet = content \<rparr>, w)
      else
        (case validateTweetContent cfg content of
           Inl err \<Rightarrow> (Inl err, w)
         | Inr u \<Rightarrow> tweet_loop env cfg content opts 0 w))"

subsection \<open>The fields of the service, initialize and the counters\<close>

record twitterService =
  isStreaming :: bool
  userId :: "string option"
  MONTHLY_TWEET_LIMIT :: int
  marketUpdateInterval :: "nat option"
  tweetCount :: int

text \<open>The field initialisers; the constructor assigns none of these fields.\<close>

definition newTwitterService :: twitterService where
  "newTwitterService =
     \<lparr> isStreaming = False, userId = None, MONTHLY_TWEET_LIMIT = 3000,
       marketUpdateInterval = None, tweetCount = 0 \<rparr>"

text \<open>\<open>handleAuthError\<close> only logs; the \<open>catch\<close> clause throws the error again.\<close>

definition verifyUserAuth ::
  "platform \<Rightarrow> twitterService \<Rightarrow> world \<Rightarrow> (thrown + unit) \<times> twitterService \<times> world" where
  "verifyUserAuth env s w =
     (let w1 = advance env Me 0 w
      in case v2_me env (ticks w) (clock w1) of
           Inl err \<Rightarrow> (Inl err, s, w1)
         | Inr (uid, uname) \<Rightarrow> (Inr (), s\<lparr>userId := Some uid\<rparr>, w1))"

function initializeWithRetry_loop ::
  "platform \<Rightarrow> nat \<Rightarrow> nat \<Rightarrow> twitterService \<Rightarrow> world \<Rightarrow> (thrown + unit) \<times> twitterService \<times> world" where
  "initializeWithRetry_loop env maxRetries' attempt s w =
     (if attempt < maxRetries' then
        (case verifyUserAuth env s w of
           (Inr u, s1, w1) \<Rightarrow> (Inr (), s1, w1)
         | (Inl err, s1, w1) \<Rightarrow>
            (case rateLimitWaitTime err (clock w1) of
               Some waitTime \<Rightarrow>
                 initializeWithRetry_loop env maxRetries' (attempt + 1) s1
                   (delay env waitTime (logEvent (Failed err) w1))
             | None \<Rightarrow> (Inl err, s1, logEvent (Failed err) w1)))
      else (Inl (Error (''Failed to initialize after '' @ showNat maxRetries' @ '' attempts'')), s, w))"
  by pat_completeness auto
termination
  by (relation "measure (\<lambda>(env, maxRetries', attempt, s, w). maxRetries' - attempt)") auto

declare initializeWithRetry_loop.simps [simp del]

definition initializeWithRetry ::
  "platform \<Rightarrow> nat \<Rightarrow> twitterService \<Rightarrow> world \<Rightarrow> (thrown + unit) \<times> twitterService \<times> world" where
  "initializeWithRetry env maxRetries' s w = initializeWithRetry_loop env maxRetries' 0 s w"

text \<open>\<open>initialize\<close> calls \<open>initializeWithRetry()\<close> with its default of 3 attempts.\<close>

definition initialize ::
  "platform \<Rightarrow> twitterConfig \<Rightarrow> twitterService \<Rightarrow> world \<Rightarrow> (thrown + unit) \<times> twitterService \<times> world" where
  "initialize env cfg s w =
     (if \<not> mockMode cfg then initializeWithRetry env 3 s w else (Inr (), s, w))"

definition getTweetCount :: "twitterService \<Rightarrow> int" where
  "getTweetCount s = tweetCount s"

definition getRemainingTweets :: "twitterService \<Rightarrow> int" where
  "getRemainingTweets s = MONTHLY_TWEET_LIMIT s - getTweetCount s"

subsection \<open>The operations of the service as steps on its fields\<close>

text \<open>
  Every method of the class, with what decides its effect on the fields. \<open>initialize\<close>,
  \<open>initializeWithRetry\<close> and \<open>verifyUserAuth\<close> run as modelled above. \<open>postTweet\<close>,
  \<open>postTweetWithRetry\<close>, \<open>uploadMedia\<close>, \<open>tweet\<close>, \<open>validateTweetContent\<close>,
  \<open>publishMarketUpdate\<close>, \<open>stop\<close> and the two getters assign no field (\<open>Unchanged\<close>).
  \<open>startStream\<close> returns at once when \<open>isStreaming\<close> holds and sets it once the stream is
  open (the flag says whether that point is reached). \<open>handleStreamError\<close> clears it.
  \<open>handleStreamData\<close> asks for the user id when \<open>userId\<close> is missing or empty and stores the
  answer. \<open>startMarketUpdates\<close> stores the timer handle once monitoring has started;
  \<open>stopMarketUpdates\<close> clears it.
\<close>

datatype serviceOp =
    Initialize platform twitterConfig world
  | InitializeWithRetry platform nat world
  | VerifyUserAuth platform world
  | StartStream bool
  | HandleStreamError
  | HandleStreamData "thrown + string"
  | StartMarketUpdates bool nat
  | StopMarketUpdates
  | Unchanged

fun applyOp :: "twitterService \<Rightarrow> serviceOp \<Rightarrow> twitterService" where
  "applyOp s (Initialize env cfg w) = fst (snd (initialize env cfg s w))"
| "applyOp s (InitializeWithRetry env n w) = fst (snd (initializeWithRetry env n s w))"
| "applyOp s (VerifyUserAuth env w) = fst (snd (verifyUserAuth env s w))"
| "applyOp s (StartStream opened) =
     (if isStreaming s then s else if opened then s\<lparr>isStreaming := True\<rparr> else s)"
| "applyOp s HandleStreamError = s\<lparr>isStreaming := False\<rparr>"
| "applyOp s (HandleStreamData me) =
     (if userId s = None \<or> userId s = Some []
      then (case me of Inr uid \<Rightarrow> s\<lparr>userId := Some uid\<rparr> | Inl err \<Rightarrow> s)
      else s)"
| "applyOp s (StartMarketUpdates started handle) =
     (if started then s\<lparr>marketUpdateInterval := Some handle\<rparr> else s)"
| "applyOp s StopMarketUpdates = s\<lparr>marketUpdateInterval := None\<rparr>"
| "applyOp s Unchanged = s"

definition runOps :: "serviceOp list \<Rightarrow> twitterService" where
  "runOps ops = foldl applyOp newTwitterService ops"


section \<open>Reading a trace\<close>

text \<open>The number of tries begun, the delays asked for, and the failure caught last.\<close>

fun tries :: "event list \<Rightarrow> nat" where
  "tries [] = 0"
| "tries (Attempt n c # evs) = Suc (tries evs)"
| "tries (ev # evs) = tries evs"

fun sleeps :: "event list \<Rightarrow> int list" where
  "sleeps [] = []"
| "sleeps (Sleep ms # evs) = ms # sleeps evs"
| "sleeps (ev # evs) = sleeps evs"

fun lastFailed :: "event list \<Rightarrow> thrown option" where
  "lastFailed [] = None"
| "lastFailed (ev # evs) =
     (case lastFailed evs of
        Some err \<Rightarrow> Some err
      | None \<Rightarrow> (case ev of Failed err \<Rightarrow> Some err | _ \<Rightarrow> None))"

section \<open>Concrete environments\<close>

definition startWorld :: world where
  "startWorld = \<lparr> clock = 1700000000000, ticks = 0, trace = [] \<rparr>"

text \<open>The content \<open>hi\<close>.\<close>

definition hi :: jsString where
  "hi = [0x68, 0x69]"

text \<open>
  A platform that answers every request with status 429 and a reset time one minute after
  the second in which the answer arrives, one that answers every post with status 500, and
  one that accepts every post.
\<close>

definition rateLimitedPlatform :: platform where
  "rateLimitedPlatform =
     \<lparr> v2_tweet = (\<lambda>n c p. Inl (ApiResponseError 429 (Some (abs c div 1000 + 60)) True ''Too Many Requests'')),
       v1_uploadMedia = (\<lambda>n c urls. Inr []),
       v2_me = (\<lambda>n c. Inl (ApiResponseError 429 (Some (abs c div 1000 + 60)) True ''Too Many Requests'')),
       elapsed = (\<lambda>n. 0) \<rparr>"

definition brokenPlatform :: platform where
  "brokenPlatform =
     \<lparr> v2_tweet = (\<lambda>n c p. Inl (ApiResponseError 500 None False ''Internal Server Error'')),
       v1_uploadMedia = (\<lambda>n c urls. Inr []),
       v2_me = (\<lambda>n c. Inr (''42'', ''bot'')),
       elapsed = (\<lambda>n. 0) \<rparr>"

text \<open>
  A platform that answers every post with status 429 and no rate-limit header, and one
  whose 429 answers name a reset time thirty days after \<open>startWorld\<close>.
\<close>

definition unresetPlatform :: platform where
  "unresetPlatform =
     \<lparr> v2_tweet = (\<lambda>n c p. Inl (ApiResponseError 429 None True ''Too Many Requests'')),
       v1_uploadMedia = (\<lambda>n c urls. Inr []),
       v2_me = (\<lambda>n c. Inr (''42'', ''bot'')),
       elapsed = (\<lambda>n. 0) \<rparr>"


text \<open>The default configuration with five attempts allowed.\<close>

definition fiveTries :: twitterConfig where
  "fiveTries = defaultConfig\<lparr>maxRetries := 5\<rparr>"

definition acceptingPlatform :: platform where
  "acceptingPlatform =
     \<lparr> v2_tweet = (\<lambda>n c p. Inr \<lparr> id_tweet = ''1'', text_tweet = text_payload p \<rparr>),
       v1_uploadMedia = (\<lambda>n c urls. Inr []),
       v2_me = (\<lambda>n c. Inr (''42'', ''bot'')),
       elapsed = (\<lambda>n. 0) \<rparr>"

text \<open>281 times the letter \<open>a\<close>.\<close>

definition longContent :: jsString where
  "longContent = replicate 281 0x61"

text \<open>A scraper whose calls all fail, one whose calls all succeed, and a handler that accepts.\<close>

definition failingScraper :: scraper where
  "failingScraper =
     \<lparr> scraper_login = (\<lambda>h u p e. None),
       scraper_sendTweet = (\<lambda>h t. Some (Error ''timeout'')),
       scraper_likeTweet = (\<lambda>h t. Some (NonError None)),
       scraper_retweet = (\<lambda>h t. Some (Error ''timeout'')),
       scraper_getProfile = (\<lambda>h u. Inl (Error ''timeout'')) \<rparr>"

definition workingScraper :: scraper where
  "workingScraper =
     \<lparr> scraper_login = (\<lambda>h u p e. None),
       scraper_sendTweet = (\<lambda>h t. None),
       scraper_likeTweet = (\<lambda>h t. None),
       scraper_retweet = (\<lambda>h t. None),
       scraper_getProfile = (\<lambda>h u. Inr \<lparr> profile_userId = Some ''7'', profile_username = Some u,
          profile_name = None, profile_followersCount = Some 10, profile_friendsCount = None \<rparr>) \<rparr>"

definition acceptingHandler :: streamHandler where
  "acceptingHandler = \<lparr> handleTweetEvent = (\<lambda>ev. None) \<rparr>"

text \<open>
  Three tweets created 10 ms before, 5 ms after and 20 ms after the instant
  1700000000000.
\<close>

definition tweetBefore :: fetchedTweet where
  "tweetBefore = \<lparr> tweet_id = Some ''1'', tweet_text = Some ''old'',
                   tweet_timestamp = Some 1699999999990 \<rparr>"

definition tweetAfter5 :: fetchedTweet where
  "tweetAfter5 = \<lparr> tweet_id = Some ''2'', tweet_text = None,
                   tweet_timestamp = Some 1700000000005 \<rparr>"

definition tweetAfter20 :: fetchedTweet where
  "tweetAfter20 = \<lparr> tweet_id = Some ''3'', tweet_text = Some ''new'',
                    tweet_timestamp = Some 1700000000020 \<rparr>"

definition initializedWith :: "scraper \<Rightarrow> agentService" where
  "initializedWith sc =
     snd (initialize_agent
            \<lparr> env_newScraper = sc, env_newStreamHandler = Inr acceptingHandler,
              env_now = 1700000000000, env_timer = 1 \<rparr>
            (newAgentService ''bot'' ''secret'' ''bot@example.org''))"


section \<open>Properties of AgentTwitterClientService\<close>

subsection \<open>Helper facts\<close>

lemma initializedWith_fields:
  "isInitialized (initializedWith sc) \<and> scraper (initializedWith sc) = Some sc
   \<and> streamHandler (initializedWith sc) = Some acceptingHandler
   \<and> calls (initializedWith sc) = [Login ''bot'' ''secret'' ''bot@example.org'']"
  if "scraper_login sc [] ''bot'' ''secret'' ''bot@example.org'' = None"
  using that
  by (simp add: initializedWith_def initialize_agent_def initialize_try_def newAgentService_def
      startStream_agent_def Let_def)

lemma catchResult_Inr: "\<exists>r. fst (catchResult x) = Inr r"
  by (cases x) (auto simp: catchResult_def split: sum.splits)

lemma messageOrUnknown_cases:
  "messageOrUnknown err =
     (if instanceofError err then (case message err of Some m \<Rightarrow> m | None \<Rightarrow> [])
      else ''Unknown error'')"
  by (simp add: messageOrUnknown_def)

text \<open>
  \<open>isInitialized\<close> is assigned in one place, at the end of the \<open>try\<close> block of
  \<open>initialize\<close>: a call of \<open>initialize\<close> that fails leaves the flag as it was, and a new
  service has it false.
\<close>

lemma initialize_agent_failure_keeps_flag:
  "fst (initialize_agent env s) = Inl err \<Longrightarrow>
   isInitialized (snd (initialize_agent env s)) = isInitialized s"
  by (auto simp: initialize_agent_def initialize_try_def startStream_agent_def Let_def
      split: option.splits sum.splits prod.splits if_splits)

lemma newAgentService_not_initialized: "\<not> isInitialized (newAgentService u p e)"
  by (simp add: newAgentService_def)

subsection \<open>C8: replyToTweet posts an ordinary tweet\<close>

text \<open>
  C8. \<open>replyToTweet(tweetId, content, username)\<close> never uses \<open>tweetId\<close>: its outcome and
  the state it leaves are the same for any two tweet ids. It does what \<open>sendTweet\<close> does
  with the text \<open>@username content\<close> (or \<open>username content\<close> when the username already
  starts with \<open>@\<close>): on an initialised service the one platform call it makes is
  \<open>scraper.sendTweet(text)\<close>, with the text as its only argument and no reply target.
\<close>

theorem replyToTweet_ignores_tweetId:
  "replyToTweet tweetId content u s = replyToTweet tweetId' content u s
   \<and> replyToTweet tweetId content u s = sendTweet (replyContent u content) s
   \<and> calls (snd (replyToTweet tweetId content u s)) =
       (if isInitialized s \<and> scraper s \<noteq> None
        then calls s @ [SendTweet (if startsWithAt u then u @ '' '' @ content
                                   else ''@'' @ u @ '' '' @ content)]
        else calls s)"
  by (auto simp: replyToTweet_def replyToTweet_try_def sendTweet_def sendTweet_try_def
      catchResult_def ensureInitialized_def replyContent_def split: option.splits sum.splits)

text \<open>
  A reply to tweet 1234 for \<open>alice\<close>, and for \<open>@alice\<close>, submits the text \<open>@alice gm\<close>;
  the same reply addressed to tweet 99 is indistinguishable from it.
\<close>

theorem replyToTweet_ignores_tweetId_witness:
  "calls (snd (replyToTweet ''1234'' ''gm'' ''alice'' (initializedWith workingScraper)))
     = [Login ''bot'' ''secret'' ''bot@example.org'', SendTweet ''@alice gm'']
   \<and> calls (snd (replyToTweet ''1234'' ''gm'' ''@alice'' (initializedWith workingScraper)))
     = [Login ''bot'' ''secret'' ''bot@example.org'', SendTweet ''@alice gm'']
   \<and> replyToTweet ''1234'' ''gm'' ''alice'' (initializedWith workingScraper)
     = replyToTweet ''99'' ''gm'' ''alice'' (initializedWith workingScraper)"
proof -
  let ?s = "initializedWith workingScraper"
  have f: "isInitialized ?s" "scraper ?s \<noteq> None"
    "calls ?s = [Login ''bot'' ''secret'' ''bot@example.org'']"
    using initializedWith_fields [of workingScraper] by (simp_all add: workingScraper_def)
  note a = replyToTweet_ignores_tweetId [of "''1234''" "''gm''" "''alice''" ?s "''99''"]
  note b = replyToTweet_ignores_tweetId [of "''1234''" "''gm''" "''@alice''" ?s "''99''"]
  have 1: "calls (snd (replyToTweet ''1234'' ''gm'' ''alice'' ?s))
     = [Login ''bot'' ''secret'' ''bot@example.org'', SendTweet ''@alice gm'']"
    using a [THEN conjunct2, THEN conjunct2] f by (simp add: startsWithAt_def)
  have 2: "calls (snd (replyToTweet ''1234'' ''gm'' ''@alice'' ?s))
     = [Login ''bot'' ''secret'' ''bot@example.org'', SendTweet ''@alice gm'']"
    using b [THEN conjunct2, THEN conjunct2] f by (simp add: startsWithAt_def)
  show ?thesis using 1 2 a [THEN conjunct1] by blast
qed

subsection \<open>C9: operations on a service that is not initialised\<close>

text \<open>
  C9. While \<open>isInitialized\<close> is false (no call of \<open>initialize\<close> has completed
  successfully), each of \<open>sendTweet\<close>, \<open>postTweet\<close>, \<open>replyToTweet\<close>, \<open>likeTweet\<close> and
  \<open>retweet\<close> returns \<open>{ success: false }\<close> with the error that says the service is not
  initialised, and leaves the service as it was: in particular the list of platform calls
  does not grow.
\<close>

theorem uninitialized_operations_fail:
  assumes "\<not> isInitialized s"
  shows "sendTweet content s =
           (Inr \<lparr> success = False,
                  error = Some (Error ''AgentTwitterClientService not initialized. Call initialize() first.'') \<rparr>, s)
       \<and> postTweet_agent content s =
           (Inr \<lparr> success = False,
                  error = Some (Error ''AgentTwitterClientService not initialized. Call initialize() first.'') \<rparr>, s)
       \<and> replyToTweet tweetId content u s =
           (Inr \<lparr> success = False,
                  error = Some (Error ''AgentTwitterClientService not initialized. Call initialize() first.'') \<rparr>, s)
       \<and> likeTweet tweetId s =
           (Inr \<lparr> success = False,
                  error = Some (Error ''AgentTwitterClientService not initialized. Call initialize() first.'') \<rparr>, s)
       \<and> retweet tweetId s =
           (Inr \<lparr> success = False,
                  error = Some (Error ''AgentTwitterClientService not initialized. Call initialize() first.'') \<rparr>, s)"
  using assms
  by (simp add: sendTweet_def sendTweet_try_def postTweet_agent_def replyToTweet_def
      replyToTweet_try_def likeTweet_def likeTweet_try_def retweet_def retweet_try_def
      catchResult_def ensureInitialized_def notInitializedError_def errorOrUnknown_def)

text \<open>A service fresh from its constructor: \<open>sendTweet\<close> and \<open>retweet\<close> fail and call nothing.\<close>

theorem uninitialized_operations_fail_witness:
  "\<not> isInitialized (newAgentService ''bot'' ''secret'' ''bot@example.org'')
   \<and> sendTweet ''gm'' (newAgentService ''bot'' ''secret'' ''bot@example.org'') =
       (Inr \<lparr> success = False,
              error = Some (Error ''AgentTwitterClientService not initialized. Call initialize() first.'') \<rparr>,
        newAgentService ''bot'' ''secret'' ''bot@example.org'')
   \<and> calls (snd (retweet ''1234'' (newAgentService ''bot'' ''secret'' ''bot@example.org''))) = []"
proof -
  let ?s = "newAgentService ''bot'' ''secret'' ''bot@example.org''"
  have h: "\<not> isInitialized ?s" by (simp add: newAgentService_def)
  note t = uninitialized_operations_fail [OF h, of "''gm''" "''1234''" "''alice''"]
  have "calls (snd (retweet ''1234'' ?s)) = calls ?s" using t by simp
  then have "calls (snd (retweet ''1234'' ?s)) = []" by (simp add: newAgentService_def)
  then show ?thesis using h t by blast
qed


subsection \<open>C4: what the facade returns and what it throws\<close>

text \<open>
  C4 as stated fails at profile lookup. \<open>getProfile\<close> on a service that is not
  initialised throws the not-initialised error, and on an initialised service whose
  scraper call fails it throws a new \<open>Error\<close>; neither returns a failure result.
\<close>

theorem getProfile_throws:
  "fst (getProfile ''alice'' (newAgentService ''bot'' ''secret'' ''bot@example.org''))
     = Inl (Error ''AgentTwitterClientService not initialized. Call initialize() first.'')
   \<and> fst (getProfile ''alice'' (initializedWith failingScraper))
     = Inl (Error ''Failed to get profile: timeout'')"
proof -
  have f: "isInitialized (initializedWith failingScraper)"
    "scraper (initializedWith failingScraper) = Some failingScraper"
    using initializedWith_fields [of failingScraper] by (simp_all add: failingScraper_def)
  have 1: "fst (getProfile ''alice'' (newAgentService ''bot'' ''secret'' ''bot@example.org''))
     = Inl (Error ''AgentTwitterClientService not initialized. Call initialize() first.'')"
    by (simp add: getProfile_def ensureInitialized_def newAgentService_def notInitializedError_def)
  have 2: "fst (getProfile ''alice'' (initializedWith failingScraper))
     = Inl (Error ''Failed to get profile: timeout'')"
    using f by (simp add: getProfile_def ensureInitialized_def getProfile_try_def
        failingScraper_def messageOrUnknown_def)
  show ?thesis using 1 2 by blast
qed

text \<open>The four posting operations and the alias \<open>postTweet\<close> always return a result.\<close>

lemma posting_operations_return:
  "(\<exists>r. fst (sendTweet content s) = Inr r) \<and> (\<exists>r. fst (postTweet_agent content s) = Inr r)
   \<and> (\<exists>r. fst (replyToTweet tweetId content u s) = Inr r)
   \<and> (\<exists>r. fst (likeTweet tweetId s) = Inr r) \<and> (\<exists>r. fst (retweet tweetId s) = Inr r)"
  by (simp add: sendTweet_def postTweet_agent_def replyToTweet_def likeTweet_def retweet_def
      catchResult_Inr)

lemma sendTweet_failure:
  "isInitialized s \<Longrightarrow> scraper s = Some sc \<Longrightarrow> scraper_sendTweet sc (calls s) content = Some err
   \<Longrightarrow> fst (sendTweet content s) =
        Inr \<lparr> success = False, error = Some (if instanceofError err then err else Error ''Unknown error'') \<rparr>"
  by (simp add: sendTweet_def sendTweet_try_def catchResult_def ensureInitialized_def errorOrUnknown_def)

lemma replyToTweet_failure:
  "isInitialized s \<Longrightarrow> scraper s = Some sc
   \<Longrightarrow> scraper_sendTweet sc (calls s) (replyContent u content) = Some err
   \<Longrightarrow> fst (replyToTweet tweetId content u s) =
        Inr \<lparr> success = False, error = Some (if instanceofError err then err else Error ''Unknown error'') \<rparr>"
  by (simp add: replyToTweet_def replyToTweet_try_def catchResult_def ensureInitialized_def errorOrUnknown_def)

lemma likeTweet_failure:
  "isInitialized s \<Longrightarrow> scraper s = Some sc \<Longrightarrow> scraper_likeTweet sc (calls s) tweetId = Some err
   \<Longrightarrow> fst (likeTweet tweetId s) =
        Inr \<lparr> success = False, error = Some (if instanceofError err then err else Error ''Unknown error'') \<rparr>"
  by (simp add: likeTweet_def likeTweet_try_def catchResult_def ensureInitialized_def errorOrUnknown_def)

lemma retweet_failure:
  "isInitialized s \<Longrightarrow> scraper s = Some sc \<Longrightarrow> scraper_retweet sc (calls s) tweetId = Some err
   \<Longrightarrow> fst (retweet tweetId s) =
        Inr \<lparr> success = False, error = Some (if instanceofError err then err else Error ''Unknown error'') \<rparr>"
  by (simp add: retweet_def retweet_try_def catchResult_def ensureInitialized_def errorOrUnknown_def)

lemma getProfile_outcomes:
  "(\<not> isInitialized s \<or> scraper s = None \<longrightarrow>
      getProfile u s = (Inl (Error ''AgentTwitterClientService not initialized. Call initialize() first.''), s))
   \<and> (isInitialized s \<and> scraper s = Some sc \<longrightarrow>
        (\<forall>err. scraper_getProfile sc (calls s) u = Inl err \<longrightarrow>
           fst (getProfile u s) =
             Inl (Error (''Failed to get profile: '' @
                    (if instanceofError err
                     then (case message err of Some m \<Rightarrow> m | None \<Rightarrow> [])
                     else ''Unknown error''))))
      \<and> (\<forall>p. scraper_getProfile sc (calls s) u = Inr p \<longrightarrow>
           fst (getProfile u s) = Inr (toProfileResult p)))"
  by (auto simp: getProfile_def ensureInitialized_def getProfile_try_def notInitializedError_def
      messageOrUnknown_cases)

text \<open>
  C4, amended. \<open>sendTweet\<close>, \<open>postTweet\<close>, \<open>replyToTweet\<close>, \<open>likeTweet\<close> and \<open>retweet\<close>
  always return a result and never throw; when the scraper call fails, the result is
  \<open>{ success: false, error }\<close> where \<open>error\<close> is the thrown value itself if it is an
  \<open>Error\<close> and \<open>Error('Unknown error')\<close> otherwise. \<open>getProfile\<close> returns no such result:
  it returns the profile when the scraper call succeeds, throws
  \<open>Error('Failed to get profile: ' + message)\<close> when it fails (\<open>Unknown error\<close> for the
  message of a value that is not an \<open>Error\<close>), and throws the not-initialised error when
  the service is not initialised.
\<close>

theorem facade_results:
  "(\<exists>r. fst (sendTweet content s) = Inr r) \<and> (\<exists>r. fst (postTweet_agent content s) = Inr r)
   \<and> (\<exists>r. fst (replyToTweet tweetId content u s) = Inr r)
   \<and> (\<exists>r. fst (likeTweet tweetId s) = Inr r) \<and> (\<exists>r. fst (retweet tweetId s) = Inr r)
   \<and> (isInitialized s \<and> scraper s = Some sc \<longrightarrow>
        (\<forall>err. scraper_sendTweet sc (calls s) content = Some err \<longrightarrow>
           fst (sendTweet content s) =
             Inr \<lparr> success = False,
                   error = Some (if instanceofError err then err else Error ''Unknown error'') \<rparr>)
      \<and> (\<forall>err. scraper_sendTweet sc (calls s) (replyContent u content) = Some err \<longrightarrow>
           fst (replyToTweet tweetId content u s) =
             Inr \<lparr> success = False,
                   error = Some (if instanceofError err then err else Error ''Unknown error'') \<rparr>)
      \<and> (\<forall>err. scraper_likeTweet sc (calls s) tweetId = Some err \<longrightarrow>
           fst (likeTweet tweetId s) =
             Inr \<lparr> success = False,
                   error = Some (if instanceofError err then err else Error ''Unknown error'') \<rparr>)
      \<and> (\<forall>err. scraper_retweet sc (calls s) tweetId = Some err \<longrightarrow>
           fst (retweet tweetId s) =
             Inr \<lparr> success = False,
                   error = Some (if instanceofError err then err else Error ''Unknown error'') \<rparr>)
      \<and> (\<forall>err. scraper_getProfile sc (calls s) u = Inl err \<longrightarrow>
           fst (getProfile u s) =
             Inl (Error (''Failed to get profile: '' @
                    (if instanceofError err
                     then (case message err of Some m \<Rightarrow> m | None \<Rightarrow> [])
                     else ''Unknown error''))))
      \<and> (\<forall>p. scraper_getProfile sc (calls s) u = Inr p \<longrightarrow>
           fst (getProfile u s) = Inr (toProfileResult p)))
   \<and> (\<not> isInitialized s \<or> scraper s = None \<longrightarrow>
        getProfile u s =
          (Inl (Error ''AgentTwitterClientService not initialized. Call initialize() first.''), s))"
  using posting_operations_return [of content s tweetId u]
    sendTweet_failure [of s sc content] replyToTweet_failure [of s sc u content _ tweetId]
    likeTweet_failure [of s sc tweetId] retweet_failure [of s sc tweetId]
    getProfile_outcomes [of s u sc]
  by blast

text \<open>
  With a scraper whose calls fail: \<open>sendTweet\<close> returns the thrown \<open>Error\<close>, \<open>likeTweet\<close>
  (the scraper throws a value that is not an \<open>Error\<close>) returns \<open>Unknown error\<close>, and
  \<open>getProfile\<close> throws.
\<close>

theorem facade_results_witness:
  "isInitialized (initializedWith failingScraper)
   \<and> scraper (initializedWith failingScraper) = Some failingScraper
   \<and> fst (sendTweet ''gm'' (initializedWith failingScraper))
       = Inr \<lparr> success = False, error = Some (Error ''timeout'') \<rparr>
   \<and> fst (likeTweet ''1234'' (initializedWith failingScraper))
       = Inr \<lparr> success = False, error = Some (Error ''Unknown error'') \<rparr>
   \<and> fst (getProfile ''alice'' (initializedWith failingScraper))
       = Inl (Error ''Failed to get profile: timeout'')"
proof -
  let ?s = "initializedWith failingScraper"
  have f: "isInitialized ?s \<and> scraper ?s = Some failingScraper"
    using initializedWith_fields [of failingScraper] by (simp add: failingScraper_def)
  note t = facade_results [of "''gm''" ?s "''1234''" "''alice''" failingScraper]
  have a: "scraper_sendTweet failingScraper (calls ?s) ''gm'' = Some (Error ''timeout'')"
    by (simp add: failingScraper_def)
  have b: "scraper_likeTweet failingScraper (calls ?s) ''1234'' = Some (NonError None)"
    by (simp add: failingScraper_def)
  have c: "scraper_getProfile failingScraper (calls ?s) ''alice'' = Inl (Error ''timeout'')"
    by (simp add: failingScraper_def)
  have 1: "fst (sendTweet ''gm'' ?s) = Inr \<lparr> success = False, error = Some (Error ''timeout'') \<rparr>"
    using t f a by simp
  have 2: "fst (likeTweet ''1234'' ?s) = Inr \<lparr> success = False, error = Some (Error ''Unknown error'') \<rparr>"
    using t f b by simp
  have 3: "fst (getProfile ''alice'' ?s) = Inl (Error ''Failed to get profile: timeout'')"
    using t f c by simp
  show ?thesis using f 1 2 3 by blast
qed


subsection \<open>C3: what one poll tick dispatches\<close>

text \<open>
  The loop compares \<open>lastChecked\<close> with the clock reading taken when it reaches an item,
  never with the tweet's own time. So when the clock has moved on since \<open>lastChecked\<close> was
  set (a tick runs 30 s later), the handler accepts every event and every tweet has an
  \<open>id\<close>, every fetched tweet is dispatched, whatever its own timestamp is.
\<close>

lemma processTweets_dispatches_all:
  assumes "isMonitoringVar v" and "\<forall>ev. handleTweetEvent h ev = None"
    and "\<forall>(tw, ts) \<in> set yielded. lastChecked v < ts \<and> tweet_id tw \<noteq> None"
  shows "processTweets (Some h) v yielded =
           (None, map (\<lambda>(tw, ts). \<lparr> id_event = the (tweet_id tw),
                                     text_event = orEmpty (tweet_text tw), created_at = ts \<rparr>)
                      yielded)"
  using assms by (induction yielded) (auto simp: toTweetEvent_def)

lemma pollTick_dispatches_all_fetched:
  assumes "isMonitoringVar v" and "scraper s = Some sc" and "streamHandler s = Some h"
    and "\<forall>ev. handleTweetEvent h ev = None"
    and "\<forall>(tw, ts) \<in> set yielded. lastChecked v < ts \<and> tweet_id tw \<noteq> None"
  shows "snd (pollTick s yielded generatorError finishedAt v) =
           map (\<lambda>(tw, ts). \<lparr> id_event = the (tweet_id tw),
                              text_event = orEmpty (tweet_text tw), created_at = ts \<rparr>)
               yielded"
  using assms
  by (simp add: pollTick_def processTweets_dispatches_all split: option.splits)

text \<open>
  C3 (the code at the failing input). \<open>lastChecked\<close> is \<open>t = 1700000000000\<close>; the tick
  30 s later fetches three tweets whose own timestamps are \<open>t - 10\<close>, \<open>t + 5\<close> and
  \<open>t + 20\<close>. All three are dispatched, the one of \<open>t - 10\<close> first, each stamped with the
  time of the tick; and the tick after that, which fetches the same three tweets,
  dispatches all three again.
\<close>

theorem pollTick_dispatches_old_tweets:
  "pollTick (initializedWith workingScraper)
     [(tweetBefore, 1700000030000), (tweetAfter5, 1700000030001), (tweetAfter20, 1700000030002)]
     None 1700000030003 \<lparr> lastChecked = 1700000000000, isMonitoringVar = True \<rparr>
     = (\<lparr> lastChecked = 1700000030003, isMonitoringVar = True \<rparr>,
        [\<lparr> id_event = ''1'', text_event = ''old'', created_at = 1700000030000 \<rparr>,
         \<lparr> id_event = ''2'', text_event = [], created_at = 1700000030001 \<rparr>,
         \<lparr> id_event = ''3'', text_event = ''new'', created_at = 1700000030002 \<rparr>])
   \<and> pollTick (initializedWith workingScraper)
     [(tweetBefore, 1700000060000), (tweetAfter5, 1700000060001), (tweetAfter20, 1700000060002)]
     None 1700000060003 \<lparr> lastChecked = 1700000030003, isMonitoringVar = True \<rparr>
     = (\<lparr> lastChecked = 1700000060003, isMonitoringVar = True \<rparr>,
        [\<lparr> id_event = ''1'', text_event = ''old'', created_at = 1700000060000 \<rparr>,
         \<lparr> id_event = ''2'', text_event = [], created_at = 1700000060001 \<rparr>,
         \<lparr> id_event = ''3'', text_event = ''new'', created_at = 1700000060002 \<rparr>])"
proof -
  have f: "scraper (initializedWith workingScraper) = Some workingScraper"
    "streamHandler (initializedWith workingScraper) = Some acceptingHandler"
    using initializedWith_fields [of workingScraper] by (simp_all add: workingScraper_def)
  show ?thesis
    by (simp add: pollTick_def f toTweetEvent_def tweetBefore_def tweetAfter5_def tweetAfter20_def
        acceptingHandler_def orEmpty_def)
qed

text \<open>
  The variables of the callback that \<open>startStream\<close> installs start with the flag set and
  with \<open>lastChecked\<close> at the time of the call.
\<close>

lemma initializedWith_pollClosure:
  "scraper_login sc [] ''bot'' ''secret'' ''bot@example.org'' = None \<Longrightarrow>
   pollClosure (initializedWith sc) = Some \<lparr> lastChecked = 1700000000000, isMonitoringVar = True \<rparr>"
  by (simp add: initializedWith_def initialize_agent_def initialize_try_def newAgentService_def
      startStream_agent_def Let_def)

text \<open>A tweet without an \<open>id\<close> ends the tick before anything is dispatched for it.\<close>

lemma processTweets_missing_id:
  "isMonitoringVar v \<Longrightarrow> lastChecked v < ts \<Longrightarrow> tweet_id tw = None \<Longrightarrow>
   processTweets h v ((tw, ts) # rest) = (Some missingIdError, [])"
  by (simp add: toTweetEvent_def)


section \<open>Properties of TwitterService\<close>

subsection \<open>C10: the tweet counter\<close>

lemma verifyUserAuth_counters:
  "tweetCount (fst (snd (verifyUserAuth env s w))) = tweetCount s
   \<and> MONTHLY_TWEET_LIMIT (fst (snd (verifyUserAuth env s w))) = MONTHLY_TWEET_LIMIT s"
  by (auto simp: verifyUserAuth_def Let_def split: sum.splits prod.splits)

lemma initializeWithRetry_loop_counters:
  "tweetCount (fst (snd (initializeWithRetry_loop env n attempt s w))) = tweetCount s
   \<and> MONTHLY_TWEET_LIMIT (fst (snd (initializeWithRetry_loop env n attempt s w))) = MONTHLY_TWEET_LIMIT s"
proof (induction env n attempt s w rule: initializeWithRetry_loop.induct)
  case (1 env n attempt s w)
  show ?case
  proof (cases "attempt < n")
    case False
    then show ?thesis by (simp add: initializeWithRetry_loop.simps)
  next
    case True
    obtain r s1 w1 where v: "verifyUserAuth env s w = (r, s1, w1)"
      by (cases "verifyUserAuth env s w") auto
    have s1: "tweetCount s1 = tweetCount s \<and> MONTHLY_TWEET_LIMIT s1 = MONTHLY_TWEET_LIMIT s"
      using verifyUserAuth_counters [of env s w] v by simp
    show ?thesis
    proof (cases r)
      case (Inr u)
      then show ?thesis using True v s1 by (simp add: initializeWithRetry_loop.simps [of env n attempt s w])
    next
      case (Inl err)
      show ?thesis
      proof (cases "rateLimitWaitTime err (clock w1)")
        case None
        then show ?thesis using True v s1 Inl
          by (simp add: initializeWithRetry_loop.simps [of env n attempt s w])
      next
        case (Some waitTime)
        then show ?thesis using True v s1 Inl "1.IH" [OF True v [symmetric] _ _ Some]
          by (simp add: initializeWithRetry_loop.simps [of env n attempt s w])
      qed
    qed
  qed
qed

lemma applyOp_counters:
  "tweetCount (applyOp s op) = tweetCount s \<and> MONTHLY_TWEET_LIMIT (applyOp s op) = MONTHLY_TWEET_LIMIT s"
  by (cases op)
    (auto simp: initialize_def initializeWithRetry_def initializeWithRetry_loop_counters
      verifyUserAuth_counters split: sum.splits)

lemma foldl_applyOp_counters:
  "tweetCount (foldl applyOp s ops) = tweetCount s
   \<and> MONTHLY_TWEET_LIMIT (foldl applyOp s ops) = MONTHLY_TWEET_LIMIT s"
  by (induction ops arbitrary: s) (simp_all add: applyOp_counters)

text \<open>
  C10. After any sequence of operations on a service fresh from its constructor,
  \<open>getTweetCount()\<close> returns 0 and \<open>getRemainingTweets()\<close> returns 3000: no operation
  assigns \<open>tweetCount\<close> or \<open>MONTHLY_TWEET_LIMIT\<close>.
\<close>

theorem tweetCount_never_changes:
  "getTweetCount (runOps ops) = 0 \<and> getRemainingTweets (runOps ops) = 3000"
  using foldl_applyOp_counters [of newTwitterService ops]
  by (simp add: getTweetCount_def getRemainingTweets_def runOps_def newTwitterService_def)

text \<open>After a successful \<open>initialize\<close>, an opened stream and a stream error.\<close>

theorem tweetCount_never_changes_witness:
  "getTweetCount (runOps [Initialize acceptingPlatform defaultConfig startWorld, StartStream True,
                          HandleStreamError]) = 0
   \<and> getRemainingTweets (runOps [Initialize acceptingPlatform defaultConfig startWorld, StartStream True,
                                 HandleStreamError]) = 3000"
  using tweetCount_never_changes
    [of "[Initialize acceptingPlatform defaultConfig startWorld, StartStream True, HandleStreamError]"]
  by simp

subsection \<open>C1: content longer than 280 characters\<close>

lemma codePoints_no_surrogates:
  "\<forall>u \<in> set content. \<not> isHighSurrogate u \<Longrightarrow> codePoints content = map unat content"
  by (induction content rule: codePoints.induct) auto

lemma plain_text_counts:
  "emojiCount (replicate n 0x61) = 0 \<and> hashtagCount (replicate n 0x61) = 0"
  by (simp add: emojiCount_def hashtagCount_def codePoints_no_surrogates isHighSurrogate_def)

text \<open>
  What the validator does check: one grinning face (the surrogate pair D83D DE00) or one
  \<open>#\<close> is too many under the default rules.
\<close>

lemma validateTweetContent_examples:
  "validateTweetContent defaultConfig [0xD83D, 0xDE00]
     = Inl (Error ''Tweet contains too many emojis. Maximum allowed is 0.'')
   \<and> validateTweetContent defaultConfig [0x23, 0x61]
     = Inl (Error ''Tweet contains too many hashtags. Maximum allowed is 0.'')
   \<and> validateTweetContent defaultConfig [0x68, 0x69] = Inr ()"
  by (simp add: validateTweetContent_def emojiCount_def hashtagCount_def defaultConfig_def
      isHighSurrogate_def isLowSurrogate_def showInt_def showNat.simps)

text \<open>With an empty list of media URLs nothing is uploaded and the SDK is not called.\<close>

lemma uploadMedia_empty: "uploadMedia env [] w = (Inr [], w)"
  by (simp add: uploadMedia_def)

text \<open>
  The length check exists in \<open>postTweet\<close>, the path of \<open>postTweetWithRetry\<close>: content of
  more than 280 code units is rejected there before anything is sent.
\<close>

lemma postTweet_rejects_long:
  "length content > 280 \<Longrightarrow>
   postTweet env content opts w = (Inl (Error ''Tweet exceeds 280 characters''), w)"
  by (auto simp: postTweet_def)

text \<open>
  C1 (the code at the failing input). \<open>validateTweetContent\<close>, the validation step of
  \<open>tweet\<close>, has no length check: content of 281 letters passes it under the default
  rules, and \<open>tweet\<close> submits that content to the platform.
\<close>

theorem validateTweetContent_accepts_long:
  "length longContent = 281
   \<and> validateTweetContent defaultConfig longContent = Inr ()
   \<and> tweet acceptingPlatform defaultConfig longContent noOptions startWorld
       = (Inr \<lparr> id_tweet = ''1'', text_tweet = longContent \<rparr>,
          \<lparr> clock = 1700000000000, ticks = 1,
            trace = [Submit \<lparr> text_payload = longContent, media_ids = None,
                              in_reply_to_tweet_id = None \<rparr>] \<rparr>)"
proof -
  have 1: "length longContent = 281" by (simp add: longContent_def)
  have 2: "validateTweetContent defaultConfig longContent = Inr ()"
    by (simp add: validateTweetContent_def longContent_def plain_text_counts defaultConfig_def)
  have 3: "tweet acceptingPlatform defaultConfig longContent noOptions startWorld
       = (Inr \<lparr> id_tweet = ''1'', text_tweet = longContent \<rparr>,
          \<lparr> clock = 1700000000000, ticks = 1,
            trace = [Submit \<lparr> text_payload = longContent, media_ids = None,
                              in_reply_to_tweet_id = None \<rparr>] \<rparr>)"
    using 2
    by (simp add: tweet_def tweet_loop.simps [of _ _ _ _ 0] tweet_try_def mediaIdsFor_def
        submitTweet_def tweetPayload_def advance_def noOptions_def acceptingPlatform_def
        startWorld_def Let_def defaultConfig_def)
  show ?thesis using 1 2 3 by blast
qed


subsection \<open>The trace of the retry loop\<close>

lemma tries_append: "tries (xs @ ys) = tries xs + tries ys"
  by (induction xs rule: tries.induct) simp_all


lemma lastFailed_append:
  "lastFailed (xs @ ys) = (case lastFailed ys of Some err \<Rightarrow> Some err | None \<Rightarrow> lastFailed xs)"
  by (induction xs) (auto split: option.splits event.splits)

lemma trace_advance: "trace (advance env ev ms w) = trace w @ [ev]"
  by (simp add: advance_def)

lemma clock_advance: "clock (advance env ev ms w) = clock w + ms + int (elapsed env (ticks w))"
  by (simp add: advance_def)

lemma trace_delay: "trace (delay env ms w) = trace w @ [Sleep ms]"
  by (simp add: delay_def trace_advance)

lemma clock_delay:
  "clock (delay env ms w) = clock w + setTimeoutMs ms + int (elapsed env (ticks w))"
  by (simp add: delay_def clock_advance)

lemma clock_delay_mono: "clock w \<le> clock (delay env ms w)"
  by (simp add: clock_delay setTimeoutMs_def)

text \<open>A delay that the timer honours: between 1 ms and 2147483647 ms.\<close>

lemma clock_delay_honoured:
  "1 \<le> ms \<Longrightarrow> ms \<le> 2147483647 \<Longrightarrow> clock w + ms \<le> clock (delay env ms w)"
  by (simp add: clock_delay setTimeoutMs_def)

lemma trace_logEvent: "trace (logEvent ev w) = trace w @ [ev]"
  by (simp add: logEvent_def)

lemma clock_logEvent: "clock (logEvent ev w) = clock w"
  by (simp add: logEvent_def)

text \<open>\<open>postTweet\<close> adds only calls of the SDK to the trace and never turns the clock back.\<close>

lemma postTweet_trace:
  "\<exists>xs. trace (snd (postTweet env content opts w)) = trace w @ xs
        \<and> tries xs = 0 \<and> sleeps xs = [] \<and> lastFailed xs = None
        \<and> (\<forall>n c. Attempt n c \<notin> set xs)"
  by (auto simp: postTweet_def mediaIdsFor_def uploadMedia_def submitTweet_def Let_def
      trace_advance split: sum.splits prod.splits option.splits if_splits)

lemma postTweet_clock: "clock w \<le> clock (snd (postTweet env content opts w))"
  by (auto simp: postTweet_def mediaIdsFor_def uploadMedia_def submitTweet_def Let_def
      clock_advance split: sum.splits prod.splits option.splits if_splits)

lemma loop_done:
  "\<not> attempt < maxRetries cfg \<Longrightarrow>
   postTweetWithRetry_loop env cfg content attempt lastError w = (Inl (retriesExhausted cfg lastError), w)"
  by (simp add: postTweetWithRetry_loop.simps)

lemma loop_success:
  "attempt < maxRetries cfg \<Longrightarrow>
   postTweet env content noOptions (logEvent (Attempt (attempt + 1) (clock w)) w) = (Inr u, w1) \<Longrightarrow>
   postTweetWithRetry_loop env cfg content attempt lastError w = (Inr (), w1)"
  by (simp add: postTweetWithRetry_loop.simps [of env cfg content attempt lastError w])

lemma loop_rate_limited:
  "attempt < maxRetries cfg \<Longrightarrow>
   postTweet env content noOptions (logEvent (Attempt (attempt + 1) (clock w)) w) = (Inl err, w1) \<Longrightarrow>
   rateLimitWaitTime err (clock w1) = Some waitTime \<Longrightarrow>
   postTweetWithRetry_loop env cfg content attempt lastError w =
     postTweetWithRetry_loop env cfg content (attempt + 1) (Some err)
       (delay env waitTime (logEvent (Failed err) w1))"
  by (simp add: postTweetWithRetry_loop.simps [of env cfg content attempt lastError w])

lemma loop_backoff:
  "attempt + 1 < maxRetries cfg \<Longrightarrow>
   postTweet env content noOptions (logEvent (Attempt (attempt + 1) (clock w)) w) = (Inl err, w1) \<Longrightarrow>
   rateLimitWaitTime err (clock w1) = None \<Longrightarrow>
   postTweetWithRetry_loop env cfg content attempt lastError w =
     postTweetWithRetry_loop env cfg content (attempt + 1) (Some err)
       (delay env (retryDelay cfg * 2 ^ (attempt + 1)) (logEvent (Failed err) w1))"
  by (simp add: postTweetWithRetry_loop.simps [of env cfg content attempt lastError w])

lemma loop_last:
  "attempt < maxRetries cfg \<Longrightarrow> \<not> attempt + 1 < maxRetries cfg \<Longrightarrow>
   postTweet env content noOptions (logEvent (Attempt (attempt + 1) (clock w)) w) = (Inl err, w1) \<Longrightarrow>
   rateLimitWaitTime err (clock w1) = None \<Longrightarrow>
   postTweetWithRetry_loop env cfg content attempt lastError w =
     postTweetWithRetry_loop env cfg content (attempt + 1) (Some err) (logEvent (Failed err) w1)"
  by (simp add: postTweetWithRetry_loop.simps [of env cfg content attempt lastError w])

text \<open>
  After a failed try the loop goes on from a world whose trace is the old one, the try,
  the SDK calls of \<open>postTweet\<close>, the failure and at most one sleep.
\<close>

lemma loop_failed_step:
  assumes "attempt < maxRetries cfg"
    and "fst (postTweet env content noOptions (logEvent (Attempt (attempt + 1) (clock w)) w)) = Inl err"
  shows "\<exists>w2 xs zs. postTweetWithRetry_loop env cfg content attempt lastError w =
            postTweetWithRetry_loop env cfg content (attempt + 1) (Some err) w2
         \<and> trace w2 = trace w @ Attempt (attempt + 1) (clock w) # xs @ Failed err # zs
         \<and> tries xs = 0 \<and> tries zs = 0 \<and> lastFailed zs = None
         \<and> (\<forall>n c. Attempt n c \<notin> set xs) \<and> (\<forall>n c. Attempt n c \<notin> set zs)
         \<and> clock w \<le> clock w2"
proof -
  let ?w0 = "logEvent (Attempt (attempt + 1) (clock w)) w"
  obtain w1 where p: "postTweet env content noOptions ?w0 = (Inl err, w1)"
    using assms(2) by (cases "postTweet env content noOptions ?w0") auto
  obtain xs where xs: "trace w1 = trace ?w0 @ xs" "tries xs = 0" "\<forall>n c. Attempt n c \<notin> set xs"
    using postTweet_trace [of env content noOptions ?w0] p by auto
  have c1: "clock w \<le> clock w1"
    using postTweet_clock [of ?w0 env content noOptions] p by (simp add: clock_logEvent)
  have t1: "trace w1 = trace w @ Attempt (attempt + 1) (clock w) # xs"
    using xs(1) by (simp add: trace_logEvent)
  show ?thesis
  proof (cases "rateLimitWaitTime err (clock w1)")
    case (Some waitTime)
    let ?w2 = "delay env waitTime (logEvent (Failed err) w1)"
    have "trace ?w2 = trace w @ Attempt (attempt + 1) (clock w) # xs @ Failed err # [Sleep waitTime]"
      by (simp add: trace_delay trace_logEvent t1)
    moreover have "clock w \<le> clock ?w2"
      using c1 clock_delay_mono [of "logEvent (Failed err) w1" env waitTime] by (simp add: clock_logEvent)
    ultimately show ?thesis
      using loop_rate_limited [OF assms(1) p Some, of lastError] xs(2,3)
      by (intro exI [of _ ?w2] exI [of _ xs] exI [of _ "[Sleep waitTime]"]) simp
  next
    case None
    show ?thesis
    proof (cases "attempt + 1 < maxRetries cfg")
      case True
      let ?ms = "retryDelay cfg * 2 ^ (attempt + 1)"
      let ?w2 = "delay env ?ms (logEvent (Failed err) w1)"
      have "trace ?w2 = trace w @ Attempt (attempt + 1) (clock w) # xs @ Failed err # [Sleep ?ms]"
        by (simp add: trace_delay trace_logEvent t1)
      moreover have "clock w \<le> clock ?w2"
        using c1 clock_delay_mono [of "logEvent (Failed err) w1" env ?ms] by (simp add: clock_logEvent)
      ultimately show ?thesis
        using loop_backoff [OF True p None, of lastError] xs(2,3)
        by (intro exI [of _ ?w2] exI [of _ xs] exI [of _ "[Sleep ?ms]"]) simp
    next
      case False
      let ?w2 = "logEvent (Failed err) w1"
      have "trace ?w2 = trace w @ Attempt (attempt + 1) (clock w) # xs @ Failed err # []"
        by (simp add: trace_logEvent t1)
      moreover have "clock w \<le> clock ?w2" using c1 by (simp add: clock_logEvent)
      ultimately show ?thesis
        using loop_last [OF assms(1) False p None, of lastError] xs(2,3)
        by (intro exI [of _ ?w2] exI [of _ xs] exI [of _ "[]"]) simp
    qed
  qed
qed

text \<open>When every try fails, the loop uses its whole budget and reports the failure caught last.\<close>

lemma loop_all_fail:
  assumes fails: "\<forall>w. \<exists>err. fst (postTweet env content noOptions w) = Inl err"
  shows "tries (trace (snd (postTweetWithRetry_loop env cfg content attempt lastError w)))
           = tries (trace w) + (maxRetries cfg - attempt)
       \<and> fst (postTweetWithRetry_loop env cfg content attempt lastError w)
           = Inl (retriesExhausted cfg
                    (if attempt < maxRetries cfg
                     then lastFailed (trace (snd (postTweetWithRetry_loop env cfg content attempt lastError w)))
                     else lastError))
       \<and> (attempt < maxRetries cfg \<longrightarrow>
            lastFailed (trace (snd (postTweetWithRetry_loop env cfg content attempt lastError w))) \<noteq> None)"
proof (induction "maxRetries cfg - attempt" arbitrary: attempt lastError w)
  case 0
  then have "\<not> attempt < maxRetries cfg" by simp
  then show ?case by (simp add: loop_done)
next
  case (Suc k)
  then have lt: "attempt < maxRetries cfg" by simp
  obtain err where e: "fst (postTweet env content noOptions (logEvent (Attempt (attempt + 1) (clock w)) w)) = Inl err"
    using fails by blast
  obtain w2 xs zs where step:
    "postTweetWithRetry_loop env cfg content attempt lastError w =
       postTweetWithRetry_loop env cfg content (attempt + 1) (Some err) w2"
    "trace w2 = trace w @ Attempt (attempt + 1) (clock w) # xs @ Failed err # zs"
    "tries xs = 0" "tries zs = 0" "lastFailed zs = None"
    using loop_failed_step [OF lt e, of lastError] by blast
  have k: "k = maxRetries cfg - (attempt + 1)" using Suc.hyps(2) by simp
  note ih = Suc.hyps(1) [OF k, of "Some err" w2]
  have tw2: "tries (trace w2) = tries (trace w) + 1"
    using step(2,3,4) by (simp add: tries_append)
  have lf2: "lastFailed (trace w2) = Some err"
    using step(2,5) by (simp add: lastFailed_append)
  show ?case
  proof (cases "attempt + 1 < maxRetries cfg")
    case True
    then show ?thesis using ih step(1) tw2 lt by simp
  next
    case False
    then have "postTweetWithRetry_loop env cfg content (attempt + 1) (Some err) w2
                 = (Inl (retriesExhausted cfg (Some err)), w2)"
      by (rule loop_done)
    then show ?thesis using step(1) tw2 lf2 lt False by simp
  qed
qed

text \<open>
  The trace only grows, a try that is still within the budget is logged first, and no
  later try begins before the clock reading the loop started from.
\<close>

lemma loop_trace:
  "\<exists>xs. trace (snd (postTweetWithRetry_loop env cfg content attempt lastError w)) = trace w @ xs
        \<and> (\<forall>n c. Attempt n c \<in> set xs \<longrightarrow> clock w \<le> c)
        \<and> (attempt < maxRetries cfg \<longrightarrow> (\<exists>rest. xs = Attempt (attempt + 1) (clock w) # rest))"
proof (induction "maxRetries cfg - attempt" arbitrary: attempt lastError w)
  case 0
  then have "\<not> attempt < maxRetries cfg" by simp
  then show ?case by (simp add: loop_done)
next
  case (Suc k)
  then have lt: "attempt < maxRetries cfg" by simp
  let ?w0 = "logEvent (Attempt (attempt + 1) (clock w)) w"
  obtain r w1 where p: "postTweet env content noOptions ?w0 = (r, w1)"
    by (cases "postTweet env content noOptions ?w0") auto
  show ?case
  proof (cases r)
    case (Inr u)
    obtain xs where xs: "trace w1 = trace ?w0 @ xs" "\<forall>n c. Attempt n c \<notin> set xs"
      using postTweet_trace [of env content noOptions ?w0] p by auto
    have "postTweetWithRetry_loop env cfg content attempt lastError w = (Inr (), w1)"
      using loop_success [OF lt] p Inr by simp
    then show ?thesis using xs lt by (simp add: trace_logEvent)
  next
    case (Inl err)
    then have e: "fst (postTweet env content noOptions ?w0) = Inl err" using p by simp
    obtain w2 xs zs where step:
      "postTweetWithRetry_loop env cfg content attempt lastError w =
         postTweetWithRetry_loop env cfg content (attempt + 1) (Some err) w2"
      "trace w2 = trace w @ Attempt (attempt + 1) (clock w) # xs @ Failed err # zs"
      "\<forall>n c. Attempt n c \<notin> set xs" "\<forall>n c. Attempt n c \<notin> set zs" "clock w \<le> clock w2"
      using loop_failed_step [OF lt e, of lastError] by blast
    have k: "k = maxRetries cfg - (attempt + 1)" using Suc.hyps(2) by simp
    obtain ys where ys:
      "trace (snd (postTweetWithRetry_loop env cfg content (attempt + 1) (Some err) w2)) = trace w2 @ ys"
      "\<forall>n c. Attempt n c \<in> set ys \<longrightarrow> clock w2 \<le> c"
      using Suc.hyps(1) [OF k, of "Some err" w2] by blast
    have "trace (snd (postTweetWithRetry_loop env cfg content attempt lastError w))
            = trace w @ Attempt (attempt + 1) (clock w) # (xs @ Failed err # zs @ ys)"
      using step(1,2) ys(1) by simp
    moreover have "\<forall>n c. Attempt n c \<in> set (Attempt (attempt + 1) (clock w) # (xs @ Failed err # zs @ ys))
                     \<longrightarrow> clock w \<le> c"
    proof (intro allI impI)
      fix n c
      assume "Attempt n c \<in> set (Attempt (attempt + 1) (clock w) # (xs @ Failed err # zs @ ys))"
      then have "c = clock w \<or> Attempt n c \<in> set ys"
        using step(3,4) by auto
      then show "clock w \<le> c"
      proof
        assume "c = clock w" then show ?thesis by simp
      next
        assume "Attempt n c \<in> set ys"
        then have "clock w2 \<le> c" using ys(2) by blast
        then show ?thesis using step(5) by linarith
      qed
    qed
    ultimately show ?thesis by blast
  qed
qed


text \<open>Evaluation of the concrete runs.\<close>

lemmas eval_defs = postTweetWithRetry_def postTweet_def hi_def defaultConfig_def
  noOptions_def mediaIdsFor_def submitTweet_def advance_def delay_def setTimeoutMs_def logEvent_def
  rateLimitWaitTime_def getRateLimitReset_def retriesExhausted_def lastErrorMessage_def
  showNat.simps startWorld_def Let_def




lemma first_broken_try:
  "postTweet brokenPlatform hi noOptions (logEvent (Attempt (0 + 1) (clock startWorld)) startWorld)
     = (Inl (ApiResponseError 500 None False ''Internal Server Error''),
        \<lparr> clock = 1700000000000, ticks = 1,
          trace = [Attempt 1 1700000000000,
                   Submit \<lparr> text_payload = hi, media_ids = None, in_reply_to_tweet_id = None \<rparr>] \<rparr>)"
  by (simp add: eval_defs brokenPlatform_def)

subsection \<open>C5: an operation that always fails\<close>

text \<open>
  When every call of \<open>postTweet\<close> fails outside the rate-limit branch, what the loop does
  from \<open>attempt\<close> on, with \<open>n\<close> tries left, is \<open>n\<close> calls of \<open>postTweet\<close> in a row; it then
  throws the terminal error made from the error that the last call returned.
\<close>

lemma loop_is_failedTries:
  assumes fails: "\<forall>w. \<exists>err. fst (postTweet env content noOptions w) = Inl err
             \<and> rateLimitWaitTime err (clock (snd (postTweet env content noOptions w))) = None"
    and left: "attempt + n = maxRetries cfg"
  shows "\<exists>errs w'. spec_failedTries env cfg content attempt n w = Some (errs, w')
           \<and> length errs = n
           \<and> postTweetWithRetry_loop env cfg content attempt lastError w
               = (Inl (retriesExhausted cfg (if errs = [] then lastError else Some (last errs))), w')"
  using left
proof (induction n arbitrary: attempt lastError w)
  case 0
  then have "\<not> attempt < maxRetries cfg" by simp
  then show ?case by (simp add: loop_done)
next
  case (Suc n)
  then have lt: "attempt < maxRetries cfg" by simp
  let ?w0 = "logEvent (Attempt (attempt + 1) (clock w)) w"
  obtain err where e: "fst (postTweet env content noOptions ?w0) = Inl err"
    "rateLimitWaitTime err (clock (snd (postTweet env content noOptions ?w0))) = None"
    using fails by blast
  obtain w1 where p: "postTweet env content noOptions ?w0 = (Inl err, w1)"
    using e(1) by (cases "postTweet env content noOptions ?w0") auto
  have none: "rateLimitWaitTime err (clock w1) = None" using e(2) p by simp
  let ?w2 = "if n = 0 then logEvent (Failed err) w1
             else delay env (retryDelay cfg * 2 ^ (attempt + 1)) (logEvent (Failed err) w1)"
  have step: "postTweetWithRetry_loop env cfg content attempt lastError w =
                postTweetWithRetry_loop env cfg content (attempt + 1) (Some err) ?w2"
  proof (cases "n = 0")
    case True
    then have "\<not> attempt + 1 < maxRetries cfg" using Suc.prems by simp
    then show ?thesis using loop_last [OF lt _ p none] True by simp
  next
    case False
    then have "attempt + 1 < maxRetries cfg" using Suc.prems by simp
    then show ?thesis using loop_backoff [OF _ p none] False by simp
  qed
  have left': "attempt + 1 + n = maxRetries cfg" using Suc.prems by simp
  obtain errs w' where ih:
    "spec_failedTries env cfg content (attempt + 1) n ?w2 = Some (errs, w')"
    "length errs = n"
    "postTweetWithRetry_loop env cfg content (attempt + 1) (Some err) ?w2
       = (Inl (retriesExhausted cfg (if errs = [] then Some err else Some (last errs))), w')"
    using Suc.IH [OF left', of ?w2 "Some err"] by blast
  have 1: "spec_failedTries env cfg content attempt (Suc n) w = Some (err # errs, w')"
    using p ih(1) by simp
  have 2: "length (err # errs) = Suc n" using ih(2) by simp
  have 3: "postTweetWithRetry_loop env cfg content attempt lastError w
       = (Inl (retriesExhausted cfg
                 (if err # errs = [] then lastError else Some (last (err # errs)))), w')"
    using step ih(3) by simp
  show ?case using 1 2 3 by blast
qed

text \<open>What \<open>lastError?.message || 'Unknown error'\<close> gives for the kinds of thrown values.\<close>

lemma lastErrorMessage_examples:
  "lastErrorMessage (Some (Error ''boom'')) = ''boom''
   \<and> lastErrorMessage (Some (NonError (Some ''x''))) = ''x''
   \<and> lastErrorMessage (Some (NonError None)) = ''Unknown error''
   \<and> lastErrorMessage (Some (Error [])) = ''Unknown error''
   \<and> lastErrorMessage None = ''Unknown error''"
  by (simp add: lastErrorMessage_def)

text \<open>
  C5. When every call of \<open>postTweet\<close> fails with an error that does not take the
  rate-limit branch, \<open>postTweetWithRetry\<close> makes exactly \<open>config.maxRetries\<close> calls of
  \<open>postTweet\<close>, one after the other (\<open>errs\<close> are the errors those calls returned, \<open>w'\<close> is
  the world after them), and then throws the terminal error: its text carries
  \<open>maxRetries\<close> and the message of the error that the last call returned (\<open>Unknown error\<close>
  where that error has no message or an empty one, as \<open>lastError?.message || 'Unknown error'\<close>
  gives). Each of the tries is announced by one log line.
\<close>

theorem always_failing_exhausts_attempts:
  assumes "\<forall>w. \<exists>err. fst (postTweet env content noOptions w) = Inl err
             \<and> rateLimitWaitTime err (clock (snd (postTweet env content noOptions w))) = None"
  shows "\<exists>errs w'. spec_failedTries env cfg content 0 (maxRetries cfg) w = Some (errs, w')
           \<and> length errs = maxRetries cfg
           \<and> postTweetWithRetry env cfg content w
               = (Inl (Error (''Failed to post tweet after '' @ showNat (maxRetries cfg)
                              @ '' attempts: ''
                              @ lastErrorMessage (if errs = [] then None else Some (last errs)))),
                  w')
           \<and> tries (trace w') = tries (trace w) + maxRetries cfg"
proof -
  have fails: "\<forall>w. \<exists>err. fst (postTweet env content noOptions w) = Inl err"
    using assms by blast
  obtain errs w' where r:
    "spec_failedTries env cfg content 0 (maxRetries cfg) w = Some (errs, w')"
    "length errs = maxRetries cfg"
    "postTweetWithRetry_loop env cfg content 0 None w
       = (Inl (retriesExhausted cfg (if errs = [] then None else Some (last errs))), w')"
    using loop_is_failedTries [OF assms, of 0 "maxRetries cfg" cfg w None] by auto
  have t: "tries (trace w') = tries (trace w) + maxRetries cfg"
    using loop_all_fail [OF fails, of cfg 0 None w] r(3) by simp
  have p: "postTweetWithRetry env cfg content w
               = (Inl (Error (''Failed to post tweet after '' @ showNat (maxRetries cfg)
                              @ '' attempts: ''
                              @ lastErrorMessage (if errs = [] then None else Some (last errs)))),
                  w')"
    using r(3) by (simp add: postTweetWithRetry_def retriesExhausted_def)
  show ?thesis using r(1,2) p t by blast
qed

text \<open>
  A platform that answers 500 to every post, three attempts allowed: three calls of
  \<open>postTweet\<close>, each of them submitting the text, with sleeps of 10000 ms and 20000 ms
  between them, and the terminal error names the count and the last message.
\<close>

theorem always_failing_exhausts_attempts_witness:
  "(\<forall>w. \<exists>err. fst (postTweet brokenPlatform hi noOptions w) = Inl err
         \<and> rateLimitWaitTime err (clock (snd (postTweet brokenPlatform hi noOptions w))) = None)
   \<and> postTweetWithRetry brokenPlatform defaultConfig hi startWorld
       = (Inl (Error ''Failed to post tweet after 3 attempts: Internal Server Error''),
          \<lparr> clock = 1700000030000, ticks = 5,
            trace = [Attempt 1 1700000000000,
                     Submit \<lparr> text_payload = hi, media_ids = None, in_reply_to_tweet_id = None \<rparr>,
                     Failed (ApiResponseError 500 None False ''Internal Server Error''),
                     Sleep 10000,
                     Attempt 2 1700000010000,
                     Submit \<lparr> text_payload = hi, media_ids = None, in_reply_to_tweet_id = None \<rparr>,
                     Failed (ApiResponseError 500 None False ''Internal Server Error''),
                     Sleep 20000,
                     Attempt 3 1700000030000,
                     Submit \<lparr> text_payload = hi, media_ids = None, in_reply_to_tweet_id = None \<rparr>,
                     Failed (ApiResponseError 500 None False ''Internal Server Error'')] \<rparr>)"
proof -
  let ?e = "ApiResponseError 500 None False ''Internal Server Error''"
  let ?p = "\<lparr> text_payload = hi, media_ids = None, in_reply_to_tweet_id = None \<rparr>"
  let ?W = "\<lparr> clock = 1700000030000, ticks = 5,
            trace = [Attempt 1 1700000000000, Submit ?p, Failed ?e, Sleep 10000,
                     Attempt 2 1700000010000, Submit ?p, Failed ?e, Sleep 20000,
                     Attempt 3 1700000030000, Submit ?p, Failed ?e] \<rparr>"
  have h: "\<forall>w. \<exists>err. fst (postTweet brokenPlatform hi noOptions w) = Inl err
         \<and> rateLimitWaitTime err (clock (snd (postTweet brokenPlatform hi noOptions w))) = None"
    by (simp add: postTweet_def hi_def noOptions_def mediaIdsFor_def submitTweet_def advance_def
        brokenPlatform_def rateLimitWaitTime_def getRateLimitReset_def Let_def)
  have m: "maxRetries defaultConfig = Suc (Suc (Suc 0))" by (simp add: defaultConfig_def)
  have s: "spec_failedTries brokenPlatform defaultConfig hi 0 (maxRetries defaultConfig) startWorld
             = Some ([?e, ?e, ?e], ?W)"
    unfolding m by (simp add: eval_defs brokenPlatform_def)
  obtain errs w' where t:
    "spec_failedTries brokenPlatform defaultConfig hi 0 (maxRetries defaultConfig) startWorld = Some (errs, w')"
    "postTweetWithRetry brokenPlatform defaultConfig hi startWorld
       = (Inl (Error (''Failed to post tweet after '' @ showNat (maxRetries defaultConfig)
                      @ '' attempts: ''
                      @ lastErrorMessage (if errs = [] then None else Some (last errs)))), w')"
    using always_failing_exhausts_attempts [OF h, of defaultConfig startWorld] by blast
  have e: "errs = [?e, ?e, ?e]" and w: "w' = ?W" using s t(1) by simp_all
  have "postTweetWithRetry brokenPlatform defaultConfig hi startWorld
       = (Inl (Error ''Failed to post tweet after 3 attempts: Internal Server Error''), ?W)"
    using t(2) unfolding e w by (simp add: defaultConfig_def lastErrorMessage_def showNat.simps)
  then show ?thesis using h by blast
qed

subsection \<open>C6: the delay after a failure without usable reset information\<close>

text \<open>When the \<open>catch\<close> clause of \<open>postTweetWithRetry\<close> does not take the rate-limit branch.\<close>

lemma rateLimitWaitTime_None_iff:
  "rateLimitWaitTime err now = None \<longleftrightarrow>
     (\<forall>code r flag m. err = ApiResponseError code (Some r) flag m \<longrightarrow>
        code \<noteq> 429 \<or> r = 0 \<or> r * 1000 \<le> now)"
  by (cases err) (auto simp: rateLimitWaitTime_def getRateLimitReset_def split: option.splits)

lemmas tweet_eval_defs = tweet_def tweet_try_def tweetPayload_def validateTweetContent_def
  emojiCount_def hashtagCount_def shouldRetry_def isHighSurrogate_def isLowSurrogate_def
  fiveTries_def

text \<open>
  C6 as stated fails in the retry loop of \<open>tweet\<close>. A platform answers every post with
  429 and no reset information, five attempts are allowed and \<open>retryDelay\<close> is 5000: the
  loop sleeps 5000, 10000, 15000 and 20000 ms before its retries, which is
  \<open>retryDelay * attempt\<close> and not \<open>retryDelay * 2 ^ attempt\<close>. And when the platform
  answers 500, a failure without reset information as well, the loop does not retry at
  all.
\<close>

theorem tweet_retry_delay_is_linear:
  "tweet unresetPlatform fiveTries hi noOptions startWorld
     = (Inl (ApiResponseError 429 None True ''Too Many Requests''),
        \<lparr> clock = 1700000050000, ticks = 9,
          trace = [Submit \<lparr> text_payload = hi, media_ids = None, in_reply_to_tweet_id = None \<rparr>,
                   Failed (ApiResponseError 429 None True ''Too Many Requests''),
                   Sleep 5000,
                   Submit \<lparr> text_payload = hi, media_ids = None, in_reply_to_tweet_id = None \<rparr>,
                   Failed (ApiResponseError 429 None True ''Too Many Requests''),
                   Sleep 10000,
                   Submit \<lparr> text_payload = hi, media_ids = None, in_reply_to_tweet_id = None \<rparr>,
                   Failed (ApiResponseError 429 None True ''Too Many Requests''),
                   Sleep 15000,
                   Submit \<lparr> text_payload = hi, media_ids = None, in_reply_to_tweet_id = None \<rparr>,
                   Failed (ApiResponseError 429 None True ''Too Many Requests''),
                   Sleep 20000,
                   Submit \<lparr> text_payload = hi, media_ids = None, in_reply_to_tweet_id = None \<rparr>,
                   Failed (ApiResponseError 429 None True ''Too Many Requests'')] \<rparr>)
   \<and> tweet brokenPlatform fiveTries hi noOptions startWorld
     = (Inl (ApiResponseError 500 None False ''Internal Server Error''),
        \<lparr> clock = 1700000000000, ticks = 1,
          trace = [Submit \<lparr> text_payload = hi, media_ids = None, in_reply_to_tweet_id = None \<rparr>,
                   Failed (ApiResponseError 500 None False ''Internal Server Error'')] \<rparr>)"
  by (simp add: tweet_eval_defs eval_defs tweet_loop.simps unresetPlatform_def brokenPlatform_def)

text \<open>The steps of the two loops after a failed try.\<close>

lemma tweet_loop_retry:
  "shouldRetry cfg err (attempt + 1) \<Longrightarrow> tweet_try env content opts w = (Inl err, w1) \<Longrightarrow>
   tweet_loop env cfg content opts attempt w =
     tweet_loop env cfg content opts (attempt + 1)
       (delay env (retryDelay cfg * int (attempt + 1)) (logEvent (Failed err) w1))"
  by (simp add: tweet_loop.simps [of env cfg content opts attempt w] shouldRetry_def)

lemma tweet_loop_throw:
  "attempt < maxRetries cfg \<Longrightarrow> \<not> shouldRetry cfg err (attempt + 1) \<Longrightarrow>
   tweet_try env content opts w = (Inl err, w1) \<Longrightarrow>
   tweet_loop env cfg content opts attempt w = (Inl err, logEvent (Failed err) w1)"
  by (simp add: tweet_loop.simps [of env cfg content opts attempt w])

lemma postTweetWithRetry_backoff_trace:
  assumes "attempt + 1 < maxRetries cfg"
    and "postTweet env content noOptions (logEvent (Attempt (attempt + 1) (clock w)) w) = (Inl err, w1)"
    and "rateLimitWaitTime err (clock w1) = None"
  shows "\<exists>rest. trace (snd (postTweetWithRetry_loop env cfg content attempt lastError w))
            = trace w1 @ [Failed err, Sleep (retryDelay cfg * 2 ^ (attempt + 1)),
                          Attempt (attempt + 2)
                            (clock w1 + setTimeoutMs (retryDelay cfg * 2 ^ (attempt + 1))
                             + int (elapsed env (ticks w1)))] @ rest"
proof -
  let ?ms = "retryDelay cfg * 2 ^ (attempt + 1)"
  let ?w2 = "delay env ?ms (logEvent (Failed err) w1)"
  have eq: "postTweetWithRetry_loop env cfg content attempt lastError w =
              postTweetWithRetry_loop env cfg content (attempt + 1) (Some err) ?w2"
    using loop_backoff [OF assms] .
  obtain rest where rest:
    "trace (snd (postTweetWithRetry_loop env cfg content (attempt + 1) (Some err) ?w2))
       = trace ?w2 @ Attempt (attempt + 1 + 1) (clock ?w2) # rest"
    using loop_trace [of env cfg content "attempt + 1" "Some err" ?w2] assms(1) by auto
  have t2: "trace ?w2 = trace w1 @ [Failed err, Sleep ?ms]"
    by (simp add: trace_delay trace_logEvent)
  have c2: "clock ?w2 = clock w1 + setTimeoutMs ?ms + int (elapsed env (ticks w1))"
    by (simp add: clock_delay logEvent_def)
  show ?thesis using eq rest t2 c2 by auto
qed

text \<open>
  C6, amended. \<open>postTweetWithRetry\<close>: when a try fails, the error does not take the
  rate-limit branch (it is not a 429 \<open>ApiResponseError\<close>, or its reset time is missing,
  zero or not in the future) and another try is left, the wrapper calls
  \<open>delay(retryDelay * 2 ^ attempt)\<close>, where \<open>attempt\<close> is the attempt counter, already
  incremented for the failed try, and then begins the next try; that try begins no
  earlier than the delay after the failure if the delay is one the timer honours (from
  1 ms to 2147483647 ms). The retry loop of \<open>tweet\<close> is different: after a failed try it
  retries only if \<open>shouldRetry\<close> holds (a rate-limit error and a try left), after
  \<open>delay(retryDelay * attempt)\<close>, and throws the error at once otherwise.
\<close>

theorem retry_delay_of_each_loop:
  "(attempt + 1 < maxRetries cfg
      \<and> postTweet env content noOptions (logEvent (Attempt (attempt + 1) (clock w)) w) = (Inl err, wa)
      \<and> rateLimitWaitTime err (clock wa) = None
    \<longrightarrow> postTweetWithRetry_loop env cfg content attempt lastError w
          = postTweetWithRetry_loop env cfg content (attempt + 1) (Some err)
              (delay env (retryDelay cfg * 2 ^ (attempt + 1)) (logEvent (Failed err) wa))
        \<and> (\<exists>c rest. trace (snd (postTweetWithRetry_loop env cfg content attempt lastError w))
               = trace wa @ [Failed err, Sleep (retryDelay cfg * 2 ^ (attempt + 1)),
                             Attempt (attempt + 2) c] @ rest
             \<and> (1 \<le> retryDelay cfg * 2 ^ (attempt + 1)
                  \<and> retryDelay cfg * 2 ^ (attempt + 1) \<le> 2147483647
                \<longrightarrow> clock wa + retryDelay cfg * 2 ^ (attempt + 1) \<le> c)))
   \<and> (attempt < maxRetries cfg \<and> tweet_try env content opts v = (Inl err', va)
    \<longrightarrow> tweet_loop env cfg content opts attempt v
          = (if shouldRetry cfg err' (attempt + 1)
             then tweet_loop env cfg content opts (attempt + 1)
                    (delay env (retryDelay cfg * int (attempt + 1)) (logEvent (Failed err') va))
             else (Inl err', logEvent (Failed err') va)))"
proof -
  have a: "postTweetWithRetry_loop env cfg content attempt lastError w
          = postTweetWithRetry_loop env cfg content (attempt + 1) (Some err)
              (delay env (retryDelay cfg * 2 ^ (attempt + 1)) (logEvent (Failed err) wa))
        \<and> (\<exists>c rest. trace (snd (postTweetWithRetry_loop env cfg content attempt lastError w))
               = trace wa @ [Failed err, Sleep (retryDelay cfg * 2 ^ (attempt + 1)),
                             Attempt (attempt + 2) c] @ rest
             \<and> (1 \<le> retryDelay cfg * 2 ^ (attempt + 1)
                  \<and> retryDelay cfg * 2 ^ (attempt + 1) \<le> 2147483647
                \<longrightarrow> clock wa + retryDelay cfg * 2 ^ (attempt + 1) \<le> c))"
    if h: "attempt + 1 < maxRetries cfg"
      "postTweet env content noOptions (logEvent (Attempt (attempt + 1) (clock w)) w) = (Inl err, wa)"
      "rateLimitWaitTime err (clock wa) = None"
  proof -
    let ?ms = "retryDelay cfg * 2 ^ (attempt + 1)"
    let ?c = "clock wa + setTimeoutMs ?ms + int (elapsed env (ticks wa))"
    obtain rest where tr:
      "trace (snd (postTweetWithRetry_loop env cfg content attempt lastError w))
         = trace wa @ [Failed err, Sleep ?ms, Attempt (attempt + 2) ?c] @ rest"
      using postTweetWithRetry_backoff_trace [OF h, of lastError] by blast
    have bound: "1 \<le> ?ms \<and> ?ms \<le> 2147483647 \<longrightarrow> clock wa + ?ms \<le> ?c"
      by (simp add: setTimeoutMs_def)
    show ?thesis using loop_backoff [OF h, of lastError] tr bound by blast
  qed
  have b: "tweet_loop env cfg content opts attempt v
          = (if shouldRetry cfg err' (attempt + 1)
             then tweet_loop env cfg content opts (attempt + 1)
                    (delay env (retryDelay cfg * int (attempt + 1)) (logEvent (Failed err') va))
             else (Inl err', logEvent (Failed err') va))"
    if "attempt < maxRetries cfg" "tweet_try env content opts v = (Inl err', va)"
    using that tweet_loop_retry [of cfg err' attempt env content opts v va]
      tweet_loop_throw [of attempt cfg err' env content opts v va]
    by simp
  show ?thesis using a b by blast
qed

text \<open>
  With \<open>retryDelay = 5000\<close>. \<open>postTweetWithRetry\<close> on the platform that answers 500: after
  the first failure the counter is 1, the sleep is 10000 ms, and the second try begins at
  or after 1700000010000. \<open>tweet\<close> on the platform that answers 429 without reset
  information: after the first failure the retry comes after a sleep of 5000 ms.
\<close>

theorem retry_delay_of_each_loop_witness:
  "0 + 1 < maxRetries defaultConfig
   \<and> rateLimitWaitTime (ApiResponseError 500 None False ''Internal Server Error'') 1700000000000 = None
   \<and> (\<exists>c rest. trace (snd (postTweetWithRetry_loop brokenPlatform defaultConfig hi 0 None startWorld))
        = [Attempt 1 1700000000000,
           Submit \<lparr> text_payload = hi, media_ids = None, in_reply_to_tweet_id = None \<rparr>,
           Failed (ApiResponseError 500 None False ''Internal Server Error''),
           Sleep 10000, Attempt 2 c] @ rest
       \<and> 1700000010000 \<le> c)
   \<and> tweet_try unresetPlatform hi noOptions startWorld
       = (Inl (ApiResponseError 429 None True ''Too Many Requests''),
          \<lparr> clock = 1700000000000, ticks = 1,
            trace = [Submit \<lparr> text_payload = hi, media_ids = None, in_reply_to_tweet_id = None \<rparr>] \<rparr>)
   \<and> tweet_loop unresetPlatform defaultConfig hi noOptions 0 startWorld
       = tweet_loop unresetPlatform defaultConfig hi noOptions 1
           \<lparr> clock = 1700000005000, ticks = 2,
             trace = [Submit \<lparr> text_payload = hi, media_ids = None, in_reply_to_tweet_id = None \<rparr>,
                      Failed (ApiResponseError 429 None True ''Too Many Requests''),
                      Sleep 5000] \<rparr>"
proof -
  let ?p = "\<lparr> text_payload = hi, media_ids = None, in_reply_to_tweet_id = None \<rparr>"
  let ?w1 = "\<lparr> clock = 1700000000000, ticks = 1, trace = [Attempt 1 1700000000000, Submit ?p] \<rparr>"
  let ?v1 = "\<lparr> clock = 1700000000000, ticks = 1, trace = [Submit ?p] \<rparr>"
  let ?err = "ApiResponseError 500 None False ''Internal Server Error''"
  let ?err' = "ApiResponseError 429 None True ''Too Many Requests''"
  have a: "0 + 1 < maxRetries defaultConfig" by (simp add: defaultConfig_def)
  have a': "0 < maxRetries defaultConfig" by (simp add: defaultConfig_def)
  have b: "rateLimitWaitTime ?err 1700000000000 = None" by (simp add: rateLimitWaitTime_def)
  have c: "rateLimitWaitTime ?err (clock ?w1) = None" using b by simp
  have d: "retryDelay defaultConfig * 2 ^ (0 + 1) = 10000" by (simp add: defaultConfig_def)
  have d': "retryDelay defaultConfig * int (0 + 1) = 5000" by (simp add: defaultConfig_def)
  have e: "tweet_try unresetPlatform hi noOptions startWorld = (Inl ?err', ?v1)"
    by (simp add: tweet_eval_defs eval_defs unresetPlatform_def)
  have s: "shouldRetry defaultConfig ?err' (0 + 1)"
    by (simp add: shouldRetry_def defaultConfig_def)
  note t = retry_delay_of_each_loop [where attempt = 0 and cfg = defaultConfig
      and env = brokenPlatform and content = hi and w = startWorld and err = ?err and wa = ?w1
      and lastError = None, THEN conjunct1, THEN mp, OF conjI [OF a conjI [OF first_broken_try c]]]
  note u = retry_delay_of_each_loop [where attempt = 0 and cfg = defaultConfig
      and env = unresetPlatform and content = hi and opts = noOptions and v = startWorld
      and err' = ?err' and va = ?v1, THEN conjunct2, THEN mp, OF conjI [OF a' e]]
  obtain c' rest where tr:
    "trace (snd (postTweetWithRetry_loop brokenPlatform defaultConfig hi 0 None startWorld))
       = trace ?w1 @ [Failed ?err, Sleep (retryDelay defaultConfig * 2 ^ (0 + 1)), Attempt (0 + 2) c'] @ rest"
    "1 \<le> retryDelay defaultConfig * 2 ^ (0 + 1) \<and> retryDelay defaultConfig * 2 ^ (0 + 1) \<le> 2147483647
       \<longrightarrow> clock ?w1 + retryDelay defaultConfig * 2 ^ (0 + 1) \<le> c'"
    using t by blast
  have 1: "trace (snd (postTweetWithRetry_loop brokenPlatform defaultConfig hi 0 None startWorld))
        = [Attempt 1 1700000000000, Submit ?p, Failed ?err, Sleep 10000, Attempt 2 c'] @ rest"
    using tr(1) unfolding d by simp
  have 2: "1700000010000 \<le> c'" using tr(2) unfolding d by simp
  have 3: "tweet_loop unresetPlatform defaultConfig hi noOptions 0 startWorld
       = tweet_loop unresetPlatform defaultConfig hi noOptions 1
           \<lparr> clock = 1700000005000, ticks = 2, trace = [Submit ?p, Failed ?err', Sleep 5000] \<rparr>"
  proof -
    have wd: "delay unresetPlatform 5000 (logEvent (Failed ?err') ?v1)
                = \<lparr> clock = 1700000005000, ticks = 2, trace = [Submit ?p, Failed ?err', Sleep 5000] \<rparr>"
      by (simp add: delay_def setTimeoutMs_def advance_def logEvent_def unresetPlatform_def
          numeral_2_eq_2)
    have "tweet_loop unresetPlatform defaultConfig hi noOptions 0 startWorld
            = tweet_loop unresetPlatform defaultConfig hi noOptions (0 + 1)
                (delay unresetPlatform (retryDelay defaultConfig * int (0 + 1))
                   (logEvent (Failed ?err') ?v1))"
      using u s by (simp only: if_True)
    then show ?thesis unfolding d' wd by simp
  qed
  show ?thesis using a b e 1 2 3 by blast
qed

subsection \<open>C7: no retry before the reset time\<close>




subsection \<open>C2: rate-limited attempts and the attempt ceiling\<close>


text \<open>
  \<open>initializeWithRetry\<close> counts in the same way: with every authentication check
  rate limited it gives up after its three attempts.
\<close>

lemma initializeWithRetry_rate_limited_run:
  "initializeWithRetry rateLimitedPlatform 3 newTwitterService startWorld
     = (Inl (Error ''Failed to initialize after 3 attempts''), newTwitterService,
        \<lparr> clock = 1700000180000, ticks = 6,
          trace = [Me, Failed (ApiResponseError 429 (Some 1700000060) True ''Too Many Requests''),
                   Sleep 60000,
                   Me, Failed (ApiResponseError 429 (Some 1700000120) True ''Too Many Requests''),
                   Sleep 60000,
                   Me, Failed (ApiResponseError 429 (Some 1700000180) True ''Too Many Requests''),
                   Sleep 60000] \<rparr>)"
  by (simp add: initializeWithRetry_def initializeWithRetry_loop.simps verifyUserAuth_def
      rateLimitedPlatform_def advance_def delay_def setTimeoutMs_def logEvent_def
      rateLimitWaitTime_def getRateLimitReset_def startWorld_def showNat.simps Let_def)



end
